theory Spec2Isabelle
  imports Complex_Main "HOL-Library.AList" "HOL-Library.Sublist"
begin

section \<open>JavaScript numbers\<close>

text \<open>
  A JavaScript number is modelled as a real number or one of the three non-finite
  values. Rounding of doubles and the sign of zero are not modelled: every finite
  operation is exact. Comparisons with \<open>NaN\<close> are false, arithmetic on \<open>NaN\<close>
  gives \<open>NaN\<close>, as in ECMAScript.
\<close>

datatype jsnum = Fin real | PosInf | NegInf | NaN

fun js_neg :: "jsnum \<Rightarrow> jsnum" where
  "js_neg (Fin a) = Fin (- a)"
| "js_neg PosInf = NegInf"
| "js_neg NegInf = PosInf"
| "js_neg NaN = NaN"

fun js_add :: "jsnum \<Rightarrow> jsnum \<Rightarrow> jsnum" where
  "js_add (Fin a) (Fin b) = Fin (a + b)"
| "js_add NaN _ = NaN"
| "js_add _ NaN = NaN"
| "js_add PosInf NegInf = NaN"
| "js_add NegInf PosInf = NaN"
| "js_add PosInf _ = PosInf"
| "js_add _ PosInf = PosInf"
| "js_add NegInf _ = NegInf"
| "js_add _ NegInf = NegInf"

definition js_sub :: "jsnum \<Rightarrow> jsnum \<Rightarrow> jsnum" where
  "js_sub a b = js_add a (js_neg b)"

text \<open>The sign of a non-NaN number: \<open>-1\<close>, \<open>0\<close> or \<open>1\<close>.\<close>

fun js_sign :: "jsnum \<Rightarrow> int" where
  "js_sign (Fin a) = (if a < 0 then - 1 else if a = 0 then 0 else 1)"
| "js_sign PosInf = 1"
| "js_sign NegInf = - 1"
| "js_sign NaN = 0"

fun js_mul :: "jsnum \<Rightarrow> jsnum \<Rightarrow> jsnum" where
  "js_mul (Fin a) (Fin b) = Fin (a * b)"
| "js_mul NaN _ = NaN"
| "js_mul _ NaN = NaN"
| "js_mul a b =
     (if js_sign a * js_sign b = 0 then NaN
      else if js_sign a * js_sign b > 0 then PosInf else NegInf)"

fun js_sqrt :: "jsnum \<Rightarrow> jsnum" where
  "js_sqrt (Fin a) = (if a < 0 then NaN else Fin (sqrt a))"
| "js_sqrt PosInf = PosInf"
| "js_sqrt NegInf = NaN"
| "js_sqrt NaN = NaN"

fun js_lt :: "jsnum \<Rightarrow> jsnum \<Rightarrow> bool" where
  "js_lt (Fin a) (Fin b) = (a < b)"
| "js_lt NaN _ = False"
| "js_lt _ NaN = False"
| "js_lt _ NegInf = False"
| "js_lt PosInf _ = False"
| "js_lt NegInf _ = True"
| "js_lt _ PosInf = True"

fun js_le :: "jsnum \<Rightarrow> jsnum \<Rightarrow> bool" where
  "js_le (Fin a) (Fin b) = (a \<le> b)"
| "js_le NaN _ = False"
| "js_le _ NaN = False"
| "js_le NegInf _ = True"
| "js_le _ PosInf = True"
| "js_le _ NegInf = False"
| "js_le PosInf _ = False"

text \<open>\<open>Math.min\<close> and \<open>Math.max\<close> of two arguments: \<open>NaN\<close> if either is.\<close>

fun Math_min :: "jsnum \<Rightarrow> jsnum \<Rightarrow> jsnum" where
  "Math_min NaN _ = NaN"
| "Math_min _ NaN = NaN"
| "Math_min a b = (if js_lt b a then b else a)"

fun Math_max :: "jsnum \<Rightarrow> jsnum \<Rightarrow> jsnum" where
  "Math_max NaN _ = NaN"
| "Math_max _ NaN = NaN"
| "Math_max a b = (if js_lt a b then b else a)"

text \<open>
  A value found in a field of a received message, and \<open>ToNumber\<close> as the
  arithmetic built-ins apply it: a missing field reads as \<open>undefined\<close>, which
  converts to \<open>NaN\<close>; \<open>null\<close> converts to \<open>0\<close>.
\<close>

datatype js_value = JNumber jsnum | JUndefined | JNull

fun ToNumber :: "js_value \<Rightarrow> jsnum" where
  "ToNumber (JNumber n) = n"
| "ToNumber JUndefined = NaN"
| "ToNumber JNull = Fin 0"

section \<open>Constants and data\<close>

definition MAP_WIDTH :: real where "MAP_WIDTH = 4000"
definition MAP_HEIGHT :: real where "MAP_HEIGHT = 4000"
definition INITIAL_RADIUS :: real where "INITIAL_RADIUS = 25"
definition RADIUS_PER_POINT :: real where "RADIUS_PER_POINT = 0.6"
definition MAX_PELLETS :: nat where "MAX_PELLETS = 1200"

type_synonym pid = string

text \<open>
  The player object \<open>{ x, y, score, radius, color, name }\<close>. The fields \<open>x\<close> and
  \<open>y\<close> are named \<open>p_x\<close> and \<open>p_y\<close>. A colour of \<open>None\<close> is JavaScript's
  \<open>undefined\<close>.
\<close>

record player =
  p_x :: jsnum
  p_y :: jsnum
  score :: int
  radius :: real
  color :: "string option"
  name :: string

text \<open>The pellet object \<open>{ id, x, y }\<close>.\<close>

record pellet =
  pel_id :: real
  pel_x :: jsnum
  pel_y :: jsnum

text \<open>Messages sent to one connection (\<open>socket.emit\<close>, \<open>io.to(id).emit\<close>).\<close>

datatype event =
    Init pid real real
  | YouAtePlayer (gained: int) (victimName: string)
  | YouDied

text \<open>The payload of the \<open>state\<close> broadcast; \<open>None\<close> is an absent member.\<close>

record state_msg =
  msg_players :: "(pid \<times> player) list"
  msg_pellets :: "pellet list option"

text \<open>
  The server's state. \<open>players\<close> is the object \<open>socketId -> player\<close>, kept as an
  association list in key order (\<open>Object.keys\<close> is \<open>map fst\<close>). \<open>cursor\<close>
  counts the calls of \<open>Math.random()\<close> made so far: the \<open>n\<close>-th call returns
  \<open>rnd n\<close> for a sequence \<open>rnd\<close> given from outside. \<open>outbox\<close> collects the
  messages sent to single connections, in order.
\<close>

record game =
  players :: "(pid \<times> player) list"
  pellets :: "pellet list"
  cursor :: nat
  outbox :: "(pid \<times> event) list"

section \<open>Utilities\<close>

definition randomInRange :: "(nat \<Rightarrow> real) \<Rightarrow> nat \<Rightarrow> real \<Rightarrow> real \<Rightarrow> real \<times> nat" where
  "randomInRange rnd k lo hi = (rnd k * (hi - lo) + lo, Suc k)"

definition randomPosition :: "(nat \<Rightarrow> real) \<Rightarrow> nat \<Rightarrow> (real \<times> real) \<times> nat" where
  "randomPosition rnd k =
     (case randomInRange rnd k 0 MAP_WIDTH of (vx, k1) \<Rightarrow>
      case randomInRange rnd k1 0 MAP_HEIGHT of (vy, k2) \<Rightarrow> ((vx, vy), k2))"

definition colors :: "string list" where
  "colors = [''#00e5ff'', ''#ffb300'', ''#ff4081'', ''#b388ff'', ''#69f0ae'']"

text \<open>An index outside the array reads \<open>undefined\<close>.\<close>

definition randomColor :: "(nat \<Rightarrow> real) \<Rightarrow> nat \<Rightarrow> string option \<times> nat" where
  "randomColor rnd k =
     (let i = \<lfloor>rnd k * real (length colors)\<rfloor>
      in (if 0 \<le> i \<and> nat i < length colors then Some (colors ! nat i) else None, Suc k))"

text \<open>\<open>distance(a, b)\<close> reads the fields \<open>x\<close> and \<open>y\<close> of both arguments.\<close>

type_synonym point = "jsnum \<times> jsnum"

definition player_at :: "player \<Rightarrow> point" where
  "player_at p = (p_x p, p_y p)"

definition pellet_at :: "pellet \<Rightarrow> point" where
  "pellet_at q = (pel_x q, pel_y q)"

definition distance :: "point \<Rightarrow> point \<Rightarrow> jsnum" where
  "distance a b =
     (let dx = js_sub (fst a) (fst b);
          dy = js_sub (snd a) (snd b)
      in js_sqrt (js_add (js_mul dx dx) (js_mul dy dy)))"

text \<open>
  \<open>generateInitialPellets(count)\<close>: the list starts empty and receives \<open>count\<close>
  pellets with the ids \<open>0, 1, ...\<close>; the result is the list and the cursor.
\<close>

definition generateInitialPellets :: "(nat \<Rightarrow> real) \<Rightarrow> nat \<Rightarrow> nat \<Rightarrow> pellet list \<times> nat" where
  "generateInitialPellets rnd k count =
     fold (\<lambda>i (ps, k).
             case randomPosition rnd k of (pos, k') \<Rightarrow>
               (ps @ [\<lparr>pel_id = real i, pel_x = Fin (fst pos), pel_y = Fin (snd pos)\<rparr>], k'))
          [0..<count] ([], k)"

section \<open>The game loop of src/server.js\<close>

subsection \<open>Step 1: players eat pellets\<close>

text \<open>
  The inner loop \<open>for (let i = pellets.length - 1; i >= 0; i--)\<close> for one player:
  \<open>pellet_loop (Suc i)\<close> runs the body at index \<open>i\<close> and goes on below it. An
  index past the end reads \<open>undefined\<close> and is skipped; \<open>splice(i, 1)\<close> removes
  the element at \<open>i\<close>.
\<close>

fun pellet_loop :: "nat \<Rightarrow> player \<Rightarrow> pellet list \<Rightarrow> player \<times> pellet list" where
  "pellet_loop 0 player ps = (player, ps)"
| "pellet_loop (Suc i) player ps =
     (if \<not> i < length ps then pellet_loop i player ps
      else if js_lt (distance (player_at player) (pellet_at (ps ! i))) (Fin (radius player + 5))
      then pellet_loop i
             (player\<lparr>score := score player + 1,
                     radius := INITIAL_RADIUS + real_of_int (score player + 1) * RADIUS_PER_POINT\<rparr>)
             (take i ps @ drop (Suc i) ps)
      else pellet_loop i player ps)"

text \<open>
  The outer loop over \<open>Object.entries(players)\<close>: every player object is mutated in
  place, so the entry keeps its key and its place.
\<close>

fun eat_pellets :: "(pid \<times> player) list \<Rightarrow> pellet list \<Rightarrow> (pid \<times> player) list \<times> pellet list" where
  "eat_pellets [] ps = ([], ps)"
| "eat_pellets ((sid, player) # rest) ps =
     (case pellet_loop (length ps) player ps of (player', ps') \<Rightarrow>
      case eat_pellets rest ps' of (rest', ps'') \<Rightarrow> ((sid, player') # rest', ps''))"

subsection \<open>Step 2: players eat players\<close>

text \<open>The body below the \<open>KILL\<close> comment, for an eater and a prey already read.\<close>

definition kill :: "(nat \<Rightarrow> real) \<Rightarrow> pid \<Rightarrow> pid \<Rightarrow> player \<Rightarrow> player \<Rightarrow> game \<Rightarrow> game" where
  "kill rnd eaterId preyId eater prey g =
     (let gained = \<lfloor>real_of_int (score prey) * 0.5\<rfloor>;
          eater' = eater\<lparr>score := score eater + gained,
                          radius := INITIAL_RADIUS + real_of_int (score eater + gained) * RADIUS_PER_POINT\<rparr>;
          players1 = AList.update eaterId eater' (players g)
      in case randomPosition rnd (cursor g) of (pos, k') \<Rightarrow>
           g\<lparr>players := AList.update preyId
                           \<lparr>p_x = Fin (fst pos), p_y = Fin (snd pos), score = 0,
                            radius = INITIAL_RADIUS, color = color prey, name = name prey\<rparr>
                           players1,
              cursor := k',
              outbox := outbox g @ [(eaterId, YouAtePlayer gained (name prey)), (preyId, YouDied)]\<rparr>)"

text \<open>
  The body of the inner loop for the two ids \<open>ids[i]\<close> and \<open>ids[j]\<close>. Every
  \<open>continue\<close> returns the state as it is.
\<close>

definition pair_step :: "(nat \<Rightarrow> real) \<Rightarrow> pid \<Rightarrow> pid \<Rightarrow> game \<Rightarrow> game" where
  "pair_step rnd idi idj g =
     (case (map_of (players g) idi, map_of (players g) idj) of
        (Some a, Some b) \<Rightarrow>
          if score a = score b then g
          else
            let eaterId = (if score a > score b then idi else idj);
                preyId = (if eaterId = idi then idj else idi)
            in (case (map_of (players g) eaterId, map_of (players g) preyId) of
                  (Some eater, Some prey) \<Rightarrow>
                    let d = distance (player_at eater) (player_at prey);
                        Re = radius eater;
                        Rp = radius prey
                    in if Re \<le> Rp * 1.05 then g
                       else
                         let fullContain = js_le (js_add d (Fin Rp)) (Fin Re);
                             strongOverlap = js_lt d (Fin (Rp * 0.9))
                         in if \<not> fullContain \<and> \<not> strongOverlap then g
                            else kill rnd eaterId preyId eater prey g
                | _ \<Rightarrow> g)
      | _ \<Rightarrow> g)"

text \<open>The two nested loops over \<open>ids = Object.keys(players)\<close>, read once before them.\<close>

definition eat_players :: "(nat \<Rightarrow> real) \<Rightarrow> game \<Rightarrow> game" where
  "eat_players rnd g =
     (let ids = map fst (players g)
      in fold (\<lambda>i. fold (\<lambda>j. pair_step rnd (ids ! i) (ids ! j)) [Suc i..<length ids])
              [0..<length ids] g)"

subsection \<open>Step 3: pellets grow back\<close>

text \<open>
  \<open>Math.random()\<close> is called only when the list is below \<open>MAX_PELLETS\<close>
  (\<open>&&\<close> does not evaluate its right side otherwise). \<open>now\<close> is the value of
  \<open>Date.now()\<close>.
\<close>

definition regrow :: "(nat \<Rightarrow> real) \<Rightarrow> real \<Rightarrow> game \<Rightarrow> game" where
  "regrow rnd now g =
     (if length (pellets g) < MAX_PELLETS then
        (if rnd (cursor g) < 0.2 then
           (case randomPosition rnd (Suc (cursor g)) of (pos, k') \<Rightarrow>
              g\<lparr>pellets := pellets g @
                   [\<lparr>pel_id = now + rnd k', pel_x = Fin (fst pos), pel_y = Fin (snd pos)\<rparr>],
                 cursor := Suc k'\<rparr>)
         else g\<lparr>cursor := Suc (cursor g)\<rparr>)
      else g)"

subsection \<open>The tick\<close>

definition gameLoop :: "(nat \<Rightarrow> real) \<Rightarrow> real \<Rightarrow> game \<Rightarrow> game \<times> state_msg" where
  "gameLoop rnd now g =
     (case eat_pellets (players g) (pellets g) of (pls, ps) \<Rightarrow>
        let g1 = g\<lparr>players := pls, pellets := ps\<rparr>;
            g2 = eat_players rnd g1;
            g3 = regrow rnd now g2
        in (g3, \<lparr>msg_players = players g3, msg_pellets = Some (pellets g3)\<rparr>))"

section \<open>The connection handlers of src/server.js\<close>

text \<open>\<open>io.on("connection", ...)\<close> for a socket with id \<open>sid\<close>.\<close>

definition connection :: "(nat \<Rightarrow> real) \<Rightarrow> pid \<Rightarrow> game \<Rightarrow> game" where
  "connection rnd sid g =
     (case randomPosition rnd (cursor g) of (pos, k1) \<Rightarrow>
      case randomColor rnd k1 of (c, k2) \<Rightarrow>
        g\<lparr>players := AList.update sid
                        \<lparr>p_x = Fin (fst pos), p_y = Fin (snd pos), score = 0,
                         radius = INITIAL_RADIUS, color = c, name = ''Anonyme''\<rparr>
                        (players g),
           cursor := k2,
           outbox := outbox g @ [(sid, Init sid MAP_WIDTH MAP_HEIGHT)]\<rparr>)"

text \<open>
  The \<open>move\<close> handler. The argument is \<open>None\<close> when the client sent no object
  (\<open>undefined\<close> or \<open>null\<close>): reading \<open>data.x\<close> then throws a \<open>TypeError\<close>.
  Otherwise it holds the values of the fields \<open>x\<close> and \<open>y\<close>.
\<close>

datatype error = TypeError

definition move :: "pid \<Rightarrow> (js_value \<times> js_value) option \<Rightarrow> game \<Rightarrow> error + game" where
  "move sid data g =
     (case map_of (players g) sid of
        None \<Rightarrow> Inr g
      | Some p \<Rightarrow>
          (case data of
             None \<Rightarrow> Inl TypeError
           | Some (data_x, data_y) \<Rightarrow>
               let r = radius p
               in Inr (g\<lparr>players := AList.update sid
                          (p\<lparr>p_x := Math_max (Fin r) (Math_min (Fin (MAP_WIDTH - r)) (ToNumber data_x)),
                             p_y := Math_max (Fin r) (Math_min (Fin (MAP_HEIGHT - r)) (ToNumber data_y))\<rparr>)
                          (players g)\<rparr>)))"

text \<open>The \<open>disconnect\<close> handler.\<close>

definition disconnect :: "pid \<Rightarrow> game \<Rightarrow> game" where
  "disconnect sid g = g\<lparr>players := AList.delete sid (players g)\<rparr>"

section \<open>The game loop of src/unnamed/part_000\<close>

text \<open>
  The second server file has the same constants, utilities and handlers, a counter
  \<open>tick\<close> beside the players and pellets, and its own \<open>gameLoop\<close>, which is
  translated here from its own text.
\<close>

record game2 = game +
  tick :: nat

fun pellet_loop2 :: "nat \<Rightarrow> player \<Rightarrow> pellet list \<Rightarrow> player \<times> pellet list" where
  "pellet_loop2 0 player ps = (player, ps)"
| "pellet_loop2 (Suc i) player ps =
     (if \<not> i < length ps then pellet_loop2 i player ps
      else if js_lt (distance (player_at player) (pellet_at (ps ! i))) (Fin (radius player + 5))
      then pellet_loop2 i
             (player\<lparr>score := score player + 1,
                     radius := INITIAL_RADIUS + real_of_int (score player + 1) * RADIUS_PER_POINT\<rparr>)
             (take i ps @ drop (Suc i) ps)
      else pellet_loop2 i player ps)"

fun eat_pellets2 :: "(pid \<times> player) list \<Rightarrow> pellet list \<Rightarrow> (pid \<times> player) list \<times> pellet list" where
  "eat_pellets2 [] ps = ([], ps)"
| "eat_pellets2 ((sid, player) # rest) ps =
     (case pellet_loop2 (length ps) player ps of (player', ps') \<Rightarrow>
      case eat_pellets2 rest ps' of (rest', ps'') \<Rightarrow> ((sid, player') # rest', ps''))"

definition kill2 :: "(nat \<Rightarrow> real) \<Rightarrow> pid \<Rightarrow> pid \<Rightarrow> player \<Rightarrow> player \<Rightarrow> game2 \<Rightarrow> game2" where
  "kill2 rnd eaterId preyId eater prey g =
     (let gained = \<lfloor>real_of_int (score prey) * 0.5\<rfloor>;
          eater' = eater\<lparr>score := score eater + gained,
                          radius := INITIAL_RADIUS + real_of_int (score eater + gained) * RADIUS_PER_POINT\<rparr>;
          players1 = AList.update eaterId eater' (players g)
      in case randomPosition rnd (cursor g) of (pos, k') \<Rightarrow>
           g\<lparr>players := AList.update preyId
                           \<lparr>p_x = Fin (fst pos), p_y = Fin (snd pos), score = 0,
                            radius = INITIAL_RADIUS, color = color prey, name = name prey\<rparr>
                           players1,
              cursor := k',
              outbox := outbox g @ [(eaterId, YouAtePlayer gained (name prey)), (preyId, YouDied)]\<rparr>)"

definition pair_step2 :: "(nat \<Rightarrow> real) \<Rightarrow> pid \<Rightarrow> pid \<Rightarrow> game2 \<Rightarrow> game2" where
  "pair_step2 rnd idi idj g =
     (case (map_of (players g) idi, map_of (players g) idj) of
        (Some a, Some b) \<Rightarrow>
          if score a = score b then g
          else
            let eaterId = (if score a > score b then idi else idj);
                preyId = (if eaterId = idi then idj else idi)
            in (case (map_of (players g) eaterId, map_of (players g) preyId) of
                  (Some eater, Some prey) \<Rightarrow>
                    let d = distance (player_at eater) (player_at prey);
                        Re = radius eater;
                        Rp = radius prey
                    in if Re \<le> Rp * 1.05 then g
                       else
                         let fullContain = js_le (js_add d (Fin Rp)) (Fin Re);
                             strongOverlap = js_lt d (Fin (Rp * 0.9))
                         in if \<not> fullContain \<and> \<not> strongOverlap then g
                            else kill2 rnd eaterId preyId eater prey g
                | _ \<Rightarrow> g)
      | _ \<Rightarrow> g)"

definition eat_players2 :: "(nat \<Rightarrow> real) \<Rightarrow> game2 \<Rightarrow> game2" where
  "eat_players2 rnd g =
     (let ids = map fst (players g)
      in fold (\<lambda>i. fold (\<lambda>j. pair_step2 rnd (ids ! i) (ids ! j)) [Suc i..<length ids])
              [0..<length ids] g)"

definition regrow2 :: "(nat \<Rightarrow> real) \<Rightarrow> real \<Rightarrow> game2 \<Rightarrow> game2" where
  "regrow2 rnd now g =
     (if length (pellets g) < MAX_PELLETS then
        (if rnd (cursor g) < 0.2 then
           (case randomPosition rnd (Suc (cursor g)) of (pos, k') \<Rightarrow>
              g\<lparr>pellets := pellets g @
                   [\<lparr>pel_id = now + rnd k', pel_x = Fin (fst pos), pel_y = Fin (snd pos)\<rparr>],
                 cursor := Suc k'\<rparr>)
         else g\<lparr>cursor := Suc (cursor g)\<rparr>)
      else g)"

text \<open>
  The tick: \<open>tick++\<close> first, the three steps, then the payload, which has the
  member \<open>pellets\<close> only when \<open>tick % 4 === 0\<close>.
\<close>

definition gameLoop2 :: "(nat \<Rightarrow> real) \<Rightarrow> real \<Rightarrow> game2 \<Rightarrow> game2 \<times> state_msg" where
  "gameLoop2 rnd now g =
     (let g0 = g\<lparr>tick := tick g + 1\<rparr>
      in case eat_pellets2 (players g0) (pellets g0) of (pls, ps) \<Rightarrow>
           let g1 = g0\<lparr>players := pls, pellets := ps\<rparr>;
               g2 = eat_players2 rnd g1;
               g3 = regrow2 rnd now g2
           in (g3, \<lparr>msg_players = players g3,
                    msg_pellets = (if tick g3 mod 4 = 0 then Some (pellets g3) else None)\<rparr>))"

section \<open>Properties in the words of the specification\<close>

text \<open>The radius a score stands for.\<close>

definition radius_of :: "int \<Rightarrow> real" where
  "radius_of s = INITIAL_RADIUS + real_of_int s * RADIUS_PER_POINT"

definition radius_ok :: "player \<Rightarrow> bool" where
  "radius_ok p = (radius p = radius_of (score p))"

text \<open>
  The position lies within \<open>[radius, mapWidth - radius] \<times> [radius, mapHeight - radius]\<close>.
\<close>

definition in_bounds :: "player \<Rightarrow> bool" where
  "in_bounds p =
     (js_le (Fin (radius p)) (p_x p) \<and> js_le (p_x p) (Fin (MAP_WIDTH - radius p)) \<and>
      js_le (Fin (radius p)) (p_y p) \<and> js_le (p_y p) (Fin (MAP_HEIGHT - radius p)))"

text \<open>The point of the interval \<open>[lo, hi]\<close> nearest to \<open>v\<close>.\<close>

definition clamp :: "real \<Rightarrow> real \<Rightarrow> real \<Rightarrow> real" where
  "clamp lo hi v = (if v < lo then lo else if hi < v then hi else v)"

text \<open>The state of the first server that a state of the second one carries.\<close>

definition forget_tick :: "game2 \<Rightarrow> game" where
  "forget_tick g = \<lparr>players = players g, pellets = pellets g, cursor = cursor g, outbox = outbox g\<rparr>"

text \<open>Every player of the mapping has the radius its score stands for.\<close>

definition players_ok :: "(pid \<times> player) list \<Rightarrow> bool" where
  "players_ok pls = list_all (\<lambda>kp. radius_ok (snd kp)) pls"

text \<open>
  One check of a player against a pellet, in the words of the specification: if the
  distance is below the player's radius plus 5, the score grows by 1, the radius is
  recomputed and the pellet is removed; otherwise the pellet is kept.
\<close>

definition consume_step :: "pellet \<Rightarrow> player \<times> pellet list \<Rightarrow> player \<times> pellet list" where
  "consume_step q st =
     (case st of (player, kept) \<Rightarrow>
        if js_lt (distance (player_at player) (pellet_at q)) (Fin (radius player + 5))
        then (player\<lparr>score := score player + 1, radius := radius_of (score player + 1)\<rparr>, kept)
        else (player, q # kept))"

text \<open>The index pairs \<open>(i, j)\<close> with \<open>i < j < n\<close>, in the order of the two loops.\<close>

definition index_pairs :: "nat \<Rightarrow> (nat \<times> nat) list" where
  "index_pairs n = concat (map (\<lambda>i. map (\<lambda>j. (i, j)) [Suc i..<n]) [0..<n])"

section \<open>Facts about numbers\<close>

lemma Math_min_Fin: "Math_min (Fin a) (Fin b) = Fin (min a b)"
  by (simp add: min_def)

lemma Math_max_Fin: "Math_max (Fin a) (Fin b) = Fin (max a b)"
  by (simp add: max_def)

lemma max_min_clamp: "lo \<le> hi \<Longrightarrow> max lo (min hi v) = clamp lo hi v"
  by (auto simp: clamp_def)

section \<open>The move handler\<close>

text \<open>
  Claim C8, as amended. A move with real-number target \<open>(vx, vy)\<close>, for a player
  that exists and whose radius \<open>r\<close>, read when the handler runs, is at most half the
  map's width and height, stores exactly the clamp of the target into
  \<open>[r, mapWidth - r] \<times> [r, mapHeight - r]\<close> in that player's record; the stored
  point lies in that box, nothing else changes and no error is raised. The scenario
  of the specification is an instance: radius 25, target \<open>(-500, 10000)\<close>, stored
  \<open>(25, 3975)\<close>.
\<close>

theorem move_stores_clamp:
  assumes "map_of (players g) sid = Some p"
    and "radius p \<le> MAP_WIDTH - radius p" and "radius p \<le> MAP_HEIGHT - radius p"
  shows "move sid (Some (JNumber (Fin vx), JNumber (Fin vy))) g =
           Inr (g\<lparr>players := AList.update sid
                  (p\<lparr>p_x := Fin (clamp (radius p) (MAP_WIDTH - radius p) vx),
                     p_y := Fin (clamp (radius p) (MAP_HEIGHT - radius p) vy)\<rparr>)
                  (players g)\<rparr>) \<and>
         radius p \<le> clamp (radius p) (MAP_WIDTH - radius p) vx \<and>
         clamp (radius p) (MAP_WIDTH - radius p) vx \<le> MAP_WIDTH - radius p \<and>
         radius p \<le> clamp (radius p) (MAP_HEIGHT - radius p) vy \<and>
         clamp (radius p) (MAP_HEIGHT - radius p) vy \<le> MAP_HEIGHT - radius p"
proof -
  have "move sid (Some (JNumber (Fin vx), JNumber (Fin vy))) g =
           Inr (g\<lparr>players := AList.update sid
                  (p\<lparr>p_x := Fin (clamp (radius p) (MAP_WIDTH - radius p) vx),
                     p_y := Fin (clamp (radius p) (MAP_HEIGHT - radius p) vy)\<rparr>)
                  (players g)\<rparr>)"
    using assms
    by (simp add: move_def Let_def Math_min_Fin Math_max_Fin max_min_clamp
             del: Math_min.simps Math_max.simps)
  moreover have "lo \<le> hi \<Longrightarrow> lo \<le> clamp lo hi v \<and> clamp lo hi v \<le> hi" for lo hi v :: real
    by (simp add: clamp_def)
  ultimately show ?thesis using assms(2,3) by blast
qed

theorem move_stores_clamp_witness:
  "move ''s'' (Some (JNumber (Fin (- 500)), JNumber (Fin 10000)))
     \<lparr>players = [(''s'', \<lparr>p_x = Fin 100, p_y = Fin 100, score = 0, radius = 25,
                           color = Some ''#00e5ff'', name = ''Anonyme''\<rparr>)],
      pellets = [], cursor = 0, outbox = []\<rparr> =
   Inr \<lparr>players = [(''s'', \<lparr>p_x = Fin 25, p_y = Fin 3975, score = 0, radius = 25,
                           color = Some ''#00e5ff'', name = ''Anonyme''\<rparr>)],
      pellets = [], cursor = 0, outbox = []\<rparr> \<and>
   clamp 25 (MAP_WIDTH - 25) (- 500) = 25 \<and> clamp 25 (MAP_HEIGHT - 25) 10000 = 3975"
  using move_stores_clamp [where g = "\<lparr>players = [(''s'', \<lparr>p_x = Fin 100, p_y = Fin 100,
                           score = 0, radius = 25, color = Some ''#00e5ff'', name = ''Anonyme''\<rparr>)],
      pellets = [], cursor = 0, outbox = []\<rparr>" and sid = "''s''" and vx = "- 500" and vy = 10000]
  by (simp add: MAP_WIDTH_def MAP_HEIGHT_def clamp_def)

text \<open>
  Claim C8 as stated covers every player. For a player with score 4125 (radius 2500)
  the box \<open>[2500, 1500] \<times> [2500, 1500]\<close> is empty: a move to \<open>(3000, 3000)\<close> stores
  \<open>(2500, 2500)\<close>, which is not the clamp of the target (1500 in each coordinate)
  and not a point of the box.
\<close>

theorem move_oversized_player_not_clamped:
  "radius_ok \<lparr>p_x = Fin 2000, p_y = Fin 2000, score = 4125, radius = 2500,
              color = Some ''#ffb300'', name = ''Ana''\<rparr> \<and>
   move ''s'' (Some (JNumber (Fin 3000), JNumber (Fin 3000)))
      \<lparr>players = [(''s'', \<lparr>p_x = Fin 2000, p_y = Fin 2000, score = 4125, radius = 2500,
                            color = Some ''#ffb300'', name = ''Ana''\<rparr>)],
       pellets = [], cursor = 0, outbox = []\<rparr> =
   Inr \<lparr>players = [(''s'', \<lparr>p_x = Fin 2500, p_y = Fin 2500, score = 4125, radius = 2500,
                            color = Some ''#ffb300'', name = ''Ana''\<rparr>)],
       pellets = [], cursor = 0, outbox = []\<rparr> \<and>
   clamp 2500 (MAP_WIDTH - 2500) 3000 = 1500 \<and> clamp 2500 (MAP_HEIGHT - 2500) 3000 = 1500 \<and>
   move ''s'' (Some (JNumber (Fin 3000), JNumber (Fin 3000)))
      \<lparr>players = [(''s'', \<lparr>p_x = Fin 2000, p_y = Fin 2000, score = 4125, radius = 2500,
                            color = Some ''#ffb300'', name = ''Ana''\<rparr>)],
       pellets = [], cursor = 0, outbox = []\<rparr> \<noteq>
   Inr \<lparr>players = [(''s'', \<lparr>p_x = Fin (clamp 2500 (MAP_WIDTH - 2500) 3000),
                            p_y = Fin (clamp 2500 (MAP_HEIGHT - 2500) 3000),
                            score = 4125, radius = 2500,
                            color = Some ''#ffb300'', name = ''Ana''\<rparr>)],
       pellets = [], cursor = 0, outbox = []\<rparr> \<and>
   \<not> in_bounds \<lparr>p_x = Fin 2500, p_y = Fin 2500, score = 4125, radius = 2500,
                 color = Some ''#ffb300'', name = ''Ana''\<rparr>"
  by (simp add: move_def in_bounds_def clamp_def radius_ok_def radius_of_def INITIAL_RADIUS_def
        RADIUS_PER_POINT_def MAP_WIDTH_def MAP_HEIGHT_def)

text \<open>
  Claim C7. A move whose object has no fields \<open>x\<close> and \<open>y\<close> (both read
  \<open>undefined\<close>) is applied to a player of radius 25 at \<open>(100, 100)\<close>:
  \<open>Math.min\<close> and \<open>Math.max\<close> return \<open>NaN\<close>, the handler stores \<open>(NaN, NaN)\<close>,
  and the stored position is not within
  \<open>[radius, mapWidth - radius] \<times> [radius, mapHeight - radius]\<close>. A move sent
  without any object makes the handler throw.
\<close>

theorem move_missing_coordinate_stores_NaN:
  "move ''s'' (Some (JUndefined, JUndefined))
     \<lparr>players = [(''s'', \<lparr>p_x = Fin 100, p_y = Fin 100, score = 0, radius = 25,
                           color = Some ''#00e5ff'', name = ''Anonyme''\<rparr>)],
      pellets = [], cursor = 0, outbox = []\<rparr> =
   Inr \<lparr>players = [(''s'', \<lparr>p_x = NaN, p_y = NaN, score = 0, radius = 25,
                           color = Some ''#00e5ff'', name = ''Anonyme''\<rparr>)],
      pellets = [], cursor = 0, outbox = []\<rparr> \<and>
   \<not> in_bounds \<lparr>p_x = NaN, p_y = NaN, score = 0, radius = 25,
                  color = Some ''#00e5ff'', name = ''Anonyme''\<rparr> \<and>
   move ''s'' None
     \<lparr>players = [(''s'', \<lparr>p_x = Fin 100, p_y = Fin 100, score = 0, radius = 25,
                           color = Some ''#00e5ff'', name = ''Anonyme''\<rparr>)],
      pellets = [], cursor = 0, outbox = []\<rparr> = Inl TypeError"
  by (simp add: move_def in_bounds_def)

section \<open>The radius invariant\<close>

lemma pellet_loop_radius_ok:
  "radius_ok player \<Longrightarrow> radius_ok (fst (pellet_loop n player ps))"
  by (induction n arbitrary: player ps) (auto simp: radius_ok_def radius_of_def)

lemma eat_pellets_keys: "map fst (fst (eat_pellets pls ps)) = map fst pls"
  by (induction pls ps rule: eat_pellets.induct) (auto split: prod.splits)

lemma eat_pellets_players_ok:
  "players_ok pls \<Longrightarrow> players_ok (fst (eat_pellets pls ps))"
proof (induction pls ps rule: eat_pellets.induct)
  case (1 ps)
  then show ?case by simp
next
  case (2 sid player rest ps)
  obtain player' ps' where l: "pellet_loop (length ps) player ps = (player', ps')"
    by (cases "pellet_loop (length ps) player ps")
  obtain rest' ps'' where r: "eat_pellets rest ps' = (rest', ps'')"
    by (cases "eat_pellets rest ps'")
  from 2 l r have "players_ok rest'" by (auto simp: players_ok_def)
  moreover have "radius_ok player'"
    using pellet_loop_radius_ok [of player "length ps" ps] 2(2) l by (simp add: players_ok_def)
  ultimately show ?case using l r by (simp add: players_ok_def)
qed

lemma update_players_ok:
  "players_ok pls \<Longrightarrow> radius_ok v \<Longrightarrow> players_ok (AList.update k v pls)"
  by (induction pls) (auto simp: players_ok_def)

lemma delete_players_ok:
  "players_ok pls \<Longrightarrow> players_ok (AList.delete k pls)"
  by (induction pls) (auto simp: players_ok_def)

lemma map_of_players_ok:
  "players_ok pls \<Longrightarrow> map_of pls k = Some p \<Longrightarrow> radius_ok p"
  by (induction pls) (auto simp: players_ok_def split: if_splits)

lemma kill_players_ok:
  "players_ok (players g) \<Longrightarrow> players_ok (players (kill rnd eaterId preyId eater prey g))"
  by (auto simp: kill_def Let_def randomPosition_def randomInRange_def radius_ok_def radius_of_def
           intro!: update_players_ok)

lemma pair_step_players_ok:
  "players_ok (players g) \<Longrightarrow> players_ok (players (pair_step rnd idi idj g))"
  unfolding pair_step_def Let_def
  by (auto split: option.splits simp: kill_players_ok)

lemma fold_pair_step_players_ok:
  "players_ok (players g) \<Longrightarrow> players_ok (players (fold (\<lambda>j. pair_step rnd (f j) (h j)) js g))"
  by (induction js arbitrary: g) (auto simp: pair_step_players_ok)

lemma eat_players_players_ok:
  "players_ok (players g) \<Longrightarrow> players_ok (players (eat_players rnd g))"
proof -
  have "players_ok (players g) \<Longrightarrow>
      players_ok (players (fold (\<lambda>i. fold (\<lambda>j. pair_step rnd (ids ! i) (ids ! j)) (js i)) is g))"
    for ids js "is"
    by (induction "is" arbitrary: g) (auto simp: fold_pair_step_players_ok)
  then show "players_ok (players g) \<Longrightarrow> ?thesis"
    by (simp add: eat_players_def Let_def)
qed

lemma regrow_players: "players (regrow rnd now g) = players g"
  by (simp add: regrow_def split: prod.splits)

lemma gameLoop_players_ok:
  "players_ok (players g) \<Longrightarrow> players_ok (players (fst (gameLoop rnd now g)))"
  using eat_pellets_players_ok [of "players g" "pellets g"]
  by (auto simp: gameLoop_def Let_def regrow_players split: prod.splits intro!: eat_players_players_ok)

lemma connection_players_ok:
  "players_ok (players g) \<Longrightarrow> players_ok (players (connection rnd sid g))"
  by (auto simp: connection_def radius_ok_def radius_of_def split: prod.splits intro!: update_players_ok)

lemma move_players_ok:
  assumes "players_ok (players g)" and "move sid data g = Inr g'"
  shows "players_ok (players g')"
proof (cases "map_of (players g) sid")
  case None
  with assms show ?thesis by (simp add: move_def)
next
  case (Some p)
  then have "radius_ok p" using assms(1) map_of_players_ok by blast
  then have "radius_ok (p\<lparr>p_x := a, p_y := b\<rparr>)" for a b
    by (simp add: radius_ok_def)
  with assms Some show ?thesis
    by (auto simp: move_def Let_def split: option.splits prod.splits intro!: update_players_ok)
qed

lemma clamp_not_NaN:
  assumes "v \<noteq> NaN" and "lo \<le> hi"
  shows "\<exists>c. Math_max (Fin lo) (Math_min (Fin hi) v) = Fin c \<and> lo \<le> c \<and> c \<le> hi"
  using assms by (cases v) (auto simp: min_def max_def)

lemma map_of_update_same: "map_of (AList.update k v pls) k = Some v"
  by (simp add: update_conv')

lemma move_in_bounds:
  assumes "map_of (players g) sid = Some p"
    and "ToNumber vx \<noteq> NaN" and "ToNumber vy \<noteq> NaN"
    and "radius p \<le> MAP_WIDTH - radius p" and "radius p \<le> MAP_HEIGHT - radius p"
  shows "\<exists>g' p'. move sid (Some (vx, vy)) g = Inr g' \<and> map_of (players g') sid = Some p' \<and>
                 in_bounds p' \<and> score p' = score p \<and> radius p' = radius p"
proof -
  obtain cx where cx: "Math_max (Fin (radius p)) (Math_min (Fin (MAP_WIDTH - radius p)) (ToNumber vx)) = Fin cx"
      "radius p \<le> cx" "cx \<le> MAP_WIDTH - radius p"
    using clamp_not_NaN [OF assms(2) assms(4)] by blast
  obtain cy where cy: "Math_max (Fin (radius p)) (Math_min (Fin (MAP_HEIGHT - radius p)) (ToNumber vy)) = Fin cy"
      "radius p \<le> cy" "cy \<le> MAP_HEIGHT - radius p"
    using clamp_not_NaN [OF assms(3) assms(5)] by blast
  show ?thesis
    using assms(1) cx cy
    by (simp add: move_def Let_def map_of_update_same in_bounds_def del: Math_min.simps Math_max.simps)
qed


lemma disconnect_players_ok:
  "players_ok (players g) \<Longrightarrow> players_ok (players (disconnect sid g))"
  by (simp add: disconnect_def delete_players_ok)

text \<open>
  Claim C2, as amended. A mapping in which every player has
  \<open>radius = INITIAL_RADIUS + score * RADIUS_PER_POINT\<close> (25 and 0.6) keeps that
  property under a join, the pellet pass, a kill (the eater's gain and the prey's
  respawn), a whole tick, a disconnect and a move; the empty mapping has it. A move
  whose coordinates convert to numbers other than \<open>NaN\<close>, for a player whose radius
  is at most half the map's width and height, leaves the position within
  \<open>[radius, mapWidth - radius] \<times> [radius, mapHeight - radius]\<close>.
\<close>

theorem radius_invariant_move_bounds:
  assumes "players_ok (players g)"
  shows "players_ok [] \<and>
         radius_ok p = (radius p = 25 + real_of_int (score p) * 0.6) \<and>
         players_ok (players (connection rnd sid g)) \<and>
         players_ok (fst (eat_pellets (players g) (pellets g))) \<and>
         players_ok (players (kill rnd eaterId preyId eater prey g)) \<and>
         players_ok (players (fst (gameLoop rnd now g))) \<and>
         players_ok (players (disconnect sid g)) \<and>
         (\<forall>g'. move sid data g = Inr g' \<longrightarrow> players_ok (players g')) \<and>
         (\<forall>q. map_of (players g) sid = Some q \<and> ToNumber vx \<noteq> NaN \<and> ToNumber vy \<noteq> NaN \<and>
              radius q \<le> MAP_WIDTH - radius q \<and> radius q \<le> MAP_HEIGHT - radius q \<longrightarrow>
              (\<exists>g' q'. move sid (Some (vx, vy)) g = Inr g' \<and> map_of (players g') sid = Some q' \<and>
                        in_bounds q'))"
proof -
  have "radius_ok p = (radius p = 25 + real_of_int (score p) * 0.6)"
    by (simp add: radius_ok_def radius_of_def INITIAL_RADIUS_def RADIUS_PER_POINT_def)
  moreover have "\<forall>g'. move sid data g = Inr g' \<longrightarrow> players_ok (players g')"
    using assms move_players_ok by blast
  moreover have "\<forall>q. map_of (players g) sid = Some q \<and> ToNumber vx \<noteq> NaN \<and> ToNumber vy \<noteq> NaN \<and>
              radius q \<le> MAP_WIDTH - radius q \<and> radius q \<le> MAP_HEIGHT - radius q \<longrightarrow>
              (\<exists>g' q'. move sid (Some (vx, vy)) g = Inr g' \<and> map_of (players g') sid = Some q' \<and>
                        in_bounds q')"
    using move_in_bounds [of g sid _ vx vy] by blast
  moreover have "players_ok []" by (simp add: players_ok_def)
  ultimately show ?thesis
    using assms connection_players_ok eat_pellets_players_ok kill_players_ok
      gameLoop_players_ok disconnect_players_ok
    by blast
qed

theorem radius_invariant_move_bounds_witness:
  "players_ok [(''s'', \<lparr>p_x = Fin 10, p_y = Fin 10, score = 5, radius = 28,
                        color = Some ''#ffb300'', name = ''Ana''\<rparr>)] \<and>
   players_ok (players (fst (gameLoop (\<lambda>n. 1 / 2) 0
      \<lparr>players = [(''s'', \<lparr>p_x = Fin 10, p_y = Fin 10, score = 5, radius = 28,
                            color = Some ''#ffb300'', name = ''Ana''\<rparr>)],
       pellets = [], cursor = 0, outbox = []\<rparr>))) \<and>
   (\<exists>g' q'. move ''s'' (Some (JNumber PosInf, JNull))
      \<lparr>players = [(''s'', \<lparr>p_x = Fin 10, p_y = Fin 10, score = 5, radius = 28,
                            color = Some ''#ffb300'', name = ''Ana''\<rparr>)],
       pellets = [], cursor = 0, outbox = []\<rparr> = Inr g' \<and>
      map_of (players g') ''s'' = Some q' \<and> in_bounds q')"
  using radius_invariant_move_bounds [where g =
      "\<lparr>players = [(''s'', \<lparr>p_x = Fin 10, p_y = Fin 10, score = 5, radius = 28,
                            color = Some ''#ffb300'', name = ''Ana''\<rparr>)],
       pellets = [], cursor = 0, outbox = []\<rparr>"
      and sid = "''s''" and rnd = "\<lambda>n. 1 / 2" and now = 0 and vx = "JNumber PosInf" and vy = JNull]
  by (simp add: players_ok_def radius_ok_def radius_of_def INITIAL_RADIUS_def RADIUS_PER_POINT_def
        MAP_WIDTH_def MAP_HEIGHT_def)

text \<open>
  Claim C2 as stated fails for a player larger than half the map: with score 4125
  (radius 2500) a move to \<open>(0, 0)\<close> stores \<open>(2500, 2500)\<close>, and
  \<open>2500 > mapWidth - radius = 1500\<close>.
\<close>

theorem move_oversized_player_leaves_bounds:
  "radius_ok \<lparr>p_x = Fin 2000, p_y = Fin 2000, score = 4125, radius = 2500,
              color = Some ''#ffb300'', name = ''Ana''\<rparr> \<and>
   move ''s'' (Some (JNumber (Fin 0), JNumber (Fin 0)))
      \<lparr>players = [(''s'', \<lparr>p_x = Fin 2000, p_y = Fin 2000, score = 4125, radius = 2500,
                            color = Some ''#ffb300'', name = ''Ana''\<rparr>)],
       pellets = [], cursor = 0, outbox = []\<rparr> =
   Inr \<lparr>players = [(''s'', \<lparr>p_x = Fin 2500, p_y = Fin 2500, score = 4125, radius = 2500,
                            color = Some ''#ffb300'', name = ''Ana''\<rparr>)],
       pellets = [], cursor = 0, outbox = []\<rparr> \<and>
   \<not> in_bounds \<lparr>p_x = Fin 2500, p_y = Fin 2500, score = 4125, radius = 2500,
                 color = Some ''#ffb300'', name = ''Ana''\<rparr>"
  by (simp add: move_def in_bounds_def radius_ok_def radius_of_def INITIAL_RADIUS_def
        RADIUS_PER_POINT_def MAP_WIDTH_def MAP_HEIGHT_def)


section \<open>Players eat players\<close>

lemma floor_half_div: "\<lfloor>real_of_int s / 2\<rfloor> = s div 2"
proof -
  have "real_of_int s / 2 = real_of_int s / real_of_int 2" by simp
  then show ?thesis by (simp only: floor_divide_of_int_eq)
qed

lemma floor_half: "\<lfloor>real_of_int s * 0.5\<rfloor> = s div 2"
  by (simp add: floor_half_div)

lemma map_of_Some_key: "map_of pls k = Some v \<Longrightarrow> k \<in> set (map fst pls)"
  by (metis map_of_eq_None_iff option.distinct(1) set_map)

lemma kill_outbox:
  "outbox (kill rnd eaterId preyId eater prey g) =
     outbox g @ [(eaterId, YouAtePlayer \<lfloor>real_of_int (score prey) * 0.5\<rfloor> (name prey)), (preyId, YouDied)]"
  by (simp add: kill_def Let_def split: prod.splits)

lemma kill_changes_outbox: "outbox (kill rnd eaterId preyId eater prey g) \<noteq> outbox g"
  by (simp add: kill_outbox)

lemma pair_step_resolved:
  assumes "map_of (players g) eaterId = Some eater" and "map_of (players g) preyId = Some prey"
    and "score prey < score eater"
    and "(idi = eaterId \<and> idj = preyId) \<or> (idi = preyId \<and> idj = eaterId)"
  shows "pair_step rnd idi idj g =
           (if radius eater \<le> radius prey * 1.05 then g
            else if js_le (js_add (distance (player_at eater) (player_at prey)) (Fin (radius prey)))
                          (Fin (radius eater)) \<or>
                    js_lt (distance (player_at eater) (player_at prey)) (Fin (radius prey * 0.9))
                 then kill rnd eaterId preyId eater prey g
                 else g)"
proof -
  have ne: "eaterId \<noteq> preyId" using assms(1-3) by auto
  from assms(4) show ?thesis
  proof
    assume "idi = eaterId \<and> idj = preyId"
    with assms(1-3) ne show ?thesis by (simp add: pair_step_def Let_def)
  next
    assume "idi = preyId \<and> idj = eaterId"
    with assms(1-3) ne show ?thesis by (simp add: pair_step_def Let_def)
  qed
qed

lemma pair_step_equal_scores:
  assumes "map_of (players g) idi = Some a" and "map_of (players g) idj = Some b"
    and "score a = score b"
  shows "pair_step rnd idi idj g = g"
  using assms by (simp add: pair_step_def)

lemma fold_index_pairs:
  "fold (\<lambda>i. fold (\<lambda>j. f i j) [Suc i..<n]) [0..<n] g = fold (\<lambda>(i, j). f i j) (index_pairs n) g"
proof -
  have "fold (\<lambda>i. fold (\<lambda>j. f i j) (js i)) is g =
        fold (\<lambda>(i, j). f i j) (concat (map (\<lambda>i. map (\<lambda>j. (i, j)) (js i)) is)) g" for "is" js
    by (induction "is" arbitrary: g) (simp_all add: fold_map comp_def)
  then show ?thesis by (simp add: index_pairs_def)
qed

lemma set_index_pairs: "set (index_pairs n) = {(i, j). i < j \<and> j < n}"
  by (force simp: index_pairs_def)

lemma distinct_pairs:
  "distinct is \<Longrightarrow> (\<And>i. distinct (js i)) \<Longrightarrow>
   distinct (concat (map (\<lambda>i. map (Pair i) (js i)) is))"
  by (induction "is") (auto simp: distinct_map inj_on_def)

lemma distinct_index_pairs: "distinct (index_pairs n)"
  unfolding index_pairs_def by (rule distinct_pairs) simp_all

lemma eat_players_index_pairs:
  "eat_players rnd g =
     fold (\<lambda>(i, j). pair_step rnd (map fst (players g) ! i) (map fst (players g) ! j))
          (index_pairs (length (players g))) g"
  using fold_index_pairs [of "\<lambda>i j. pair_step rnd (map fst (players g) ! i) (map fst (players g) ! j)"
      "length (players g)" g]
  by (simp add: eat_players_def Let_def)


text \<open>
  Claim C3. One evaluation of the pair \<open>(idi, idj)\<close>, both ids present in the
  mapping with records \<open>a\<close> and \<open>b\<close>. With equal scores the state is returned
  unchanged. Otherwise the eater is the record with the higher score and the prey
  the other one; if \<open>eater.radius \<le> prey.radius * 1.05\<close> the state is unchanged; if
  the size check passes, a kill happens (the outbox grows, the state is that of
  \<open>kill\<close>) if and only if \<open>d + prey.radius \<le> eater.radius\<close> or
  \<open>d < prey.radius * 0.9\<close>, and the state is unchanged when neither holds. The pass
  of a tick evaluates the index pairs \<open>i < j\<close> of the key list, each exactly once.
\<close>

theorem pair_step_decision:
  assumes "map_of (players g) idi = Some a" and "map_of (players g) idj = Some b"
  shows "(score a = score b \<longrightarrow> pair_step rnd idi idj g = g) \<and>
         (score a \<noteq> score b \<longrightarrow>
            (let eaterId = (if score b < score a then idi else idj);
                 preyId = (if score b < score a then idj else idi);
                 eater = (if score b < score a then a else b);
                 prey = (if score b < score a then b else a);
                 d = distance (player_at eater) (player_at prey);
                 fullContain = js_le (js_add d (Fin (radius prey))) (Fin (radius eater));
                 strongOverlap = js_lt d (Fin (radius prey * 0.9))
             in score prey < score eater \<and>
                (radius eater \<le> radius prey * 1.05 \<longrightarrow> pair_step rnd idi idj g = g) \<and>
                (\<not> radius eater \<le> radius prey * 1.05 \<longrightarrow>
                   (outbox (pair_step rnd idi idj g) \<noteq> outbox g) = (fullContain \<or> strongOverlap) \<and>
                   (fullContain \<or> strongOverlap \<longrightarrow>
                      pair_step rnd idi idj g = kill rnd eaterId preyId eater prey g) \<and>
                   (\<not> (fullContain \<or> strongOverlap) \<longrightarrow> pair_step rnd idi idj g = g)))) \<and>
         eat_players rnd g =
           fold (\<lambda>(i, j). pair_step rnd (map fst (players g) ! i) (map fst (players g) ! j))
                (index_pairs (length (players g))) g \<and>
         distinct (index_pairs n) \<and> set (index_pairs n) = {(i, j). i < j \<and> j < n}"
proof -
  have eq: "score a = score b \<longrightarrow> pair_step rnd idi idj g = g"
    using assms pair_step_equal_scores by blast
  have ne: "score a \<noteq> score b \<longrightarrow>
            (let eaterId = (if score b < score a then idi else idj);
                 preyId = (if score b < score a then idj else idi);
                 eater = (if score b < score a then a else b);
                 prey = (if score b < score a then b else a);
                 d = distance (player_at eater) (player_at prey);
                 fullContain = js_le (js_add d (Fin (radius prey))) (Fin (radius eater));
                 strongOverlap = js_lt d (Fin (radius prey * 0.9))
             in score prey < score eater \<and>
                (radius eater \<le> radius prey * 1.05 \<longrightarrow> pair_step rnd idi idj g = g) \<and>
                (\<not> radius eater \<le> radius prey * 1.05 \<longrightarrow>
                   (outbox (pair_step rnd idi idj g) \<noteq> outbox g) = (fullContain \<or> strongOverlap) \<and>
                   (fullContain \<or> strongOverlap \<longrightarrow>
                      pair_step rnd idi idj g = kill rnd eaterId preyId eater prey g) \<and>
                   (\<not> (fullContain \<or> strongOverlap) \<longrightarrow> pair_step rnd idi idj g = g)))"
  proof (cases "score b < score a")
    case True
    show ?thesis
      using True pair_step_resolved [OF assms(1) assms(2) True, of idi idj rnd]
        kill_changes_outbox [of rnd idi idj a b g]
      by (simp add: Let_def)
  next
    case False
    show ?thesis
    proof
      assume "score a \<noteq> score b"
      with False have lt: "score a < score b" by simp
      show "let eaterId = (if score b < score a then idi else idj);
                 preyId = (if score b < score a then idj else idi);
                 eater = (if score b < score a then a else b);
                 prey = (if score b < score a then b else a);
                 d = distance (player_at eater) (player_at prey);
                 fullContain = js_le (js_add d (Fin (radius prey))) (Fin (radius eater));
                 strongOverlap = js_lt d (Fin (radius prey * 0.9))
             in score prey < score eater \<and>
                (radius eater \<le> radius prey * 1.05 \<longrightarrow> pair_step rnd idi idj g = g) \<and>
                (\<not> radius eater \<le> radius prey * 1.05 \<longrightarrow>
                   (outbox (pair_step rnd idi idj g) \<noteq> outbox g) = (fullContain \<or> strongOverlap) \<and>
                   (fullContain \<or> strongOverlap \<longrightarrow>
                      pair_step rnd idi idj g = kill rnd eaterId preyId eater prey g) \<and>
                   (\<not> (fullContain \<or> strongOverlap) \<longrightarrow> pair_step rnd idi idj g = g))"
        using False lt pair_step_resolved [OF assms(2) assms(1) lt, of idi idj rnd]
          kill_changes_outbox [of rnd idj idi b a g]
        by (simp add: Let_def)
    qed
  qed
  show ?thesis
    using eq ne eat_players_index_pairs [of rnd g] distinct_index_pairs [of n] set_index_pairs [of n]
    by blast
qed


theorem pair_step_decision_witness:
  "pair_step (\<lambda>n. 1 / 2) ''A'' ''B''
     \<lparr>players = [(''A'', \<lparr>p_x = Fin 0, p_y = Fin 0, score = 125, radius = 100,
                            color = Some ''#00e5ff'', name = ''Ana''\<rparr>),
                 (''B'', \<lparr>p_x = Fin 90, p_y = Fin 0, score = 50, radius = 55,
                            color = Some ''#ffb300'', name = ''Bob''\<rparr>)],
      pellets = [], cursor = 0, outbox = []\<rparr> =
     \<lparr>players = [(''A'', \<lparr>p_x = Fin 0, p_y = Fin 0, score = 125, radius = 100,
                            color = Some ''#00e5ff'', name = ''Ana''\<rparr>),
                 (''B'', \<lparr>p_x = Fin 90, p_y = Fin 0, score = 50, radius = 55,
                            color = Some ''#ffb300'', name = ''Bob''\<rparr>)],
      pellets = [], cursor = 0, outbox = []\<rparr> \<and>
   set (index_pairs 3) = {(i, j). i < j \<and> j < 3}"
proof -
  have sq: "sqrt 8100 = 90" by (rule real_sqrt_unique) simp_all
  show ?thesis
    using pair_step_decision [where g =
        "\<lparr>players = [(''A'', \<lparr>p_x = Fin 0, p_y = Fin 0, score = 125, radius = 100,
                            color = Some ''#00e5ff'', name = ''Ana''\<rparr>),
                 (''B'', \<lparr>p_x = Fin 90, p_y = Fin 0, score = 50, radius = 55,
                            color = Some ''#ffb300'', name = ''Bob''\<rparr>)],
          pellets = [], cursor = 0, outbox = []\<rparr>"
        and idi = "''A''" and idj = "''B''" and rnd = "\<lambda>n. 1 / 2" and n = 3]
    by (simp add: Let_def distance_def player_at_def js_sub_def sq)
qed

lemma map_fst_update_present:
  "k \<in> set (map fst pls) \<Longrightarrow> map fst (AList.update k v pls) = map fst pls"
  by (simp add: update_keys)

lemma kill_result:
  assumes "map_of (players g) eaterId = Some eater" and "map_of (players g) preyId = Some prey"
    and "eaterId \<noteq> preyId"
  shows "map_of (players (kill rnd eaterId preyId eater prey g)) =
           (map_of (players g))
             (eaterId \<mapsto> eater\<lparr>score := score eater + \<lfloor>real_of_int (score prey) * 0.5\<rfloor>,
                               radius := INITIAL_RADIUS +
                                 real_of_int (score eater + \<lfloor>real_of_int (score prey) * 0.5\<rfloor>) *
                                 RADIUS_PER_POINT\<rparr>,
              preyId \<mapsto> \<lparr>p_x = Fin (rnd (cursor g) * MAP_WIDTH),
                          p_y = Fin (rnd (Suc (cursor g)) * MAP_HEIGHT), score = 0,
                          radius = INITIAL_RADIUS, color = color prey, name = name prey\<rparr>)"
    and "map fst (players (kill rnd eaterId preyId eater prey g)) = map fst (players g)"
    and "pellets (kill rnd eaterId preyId eater prey g) = pellets g"
    and "cursor (kill rnd eaterId preyId eater prey g) = cursor g + 2"
proof -
  have ke: "eaterId \<in> set (map fst (players g))" and kp: "preyId \<in> set (map fst (players g))"
    using assms(1,2) map_of_Some_key by fast+
  show "map_of (players (kill rnd eaterId preyId eater prey g)) =
           (map_of (players g))
             (eaterId \<mapsto> eater\<lparr>score := score eater + \<lfloor>real_of_int (score prey) * 0.5\<rfloor>,
                               radius := INITIAL_RADIUS +
                                 real_of_int (score eater + \<lfloor>real_of_int (score prey) * 0.5\<rfloor>) *
                                 RADIUS_PER_POINT\<rparr>,
              preyId \<mapsto> \<lparr>p_x = Fin (rnd (cursor g) * MAP_WIDTH),
                          p_y = Fin (rnd (Suc (cursor g)) * MAP_HEIGHT), score = 0,
                          radius = INITIAL_RADIUS, color = color prey, name = name prey\<rparr>)"
    by (simp add: kill_def Let_def randomPosition_def randomInRange_def update_conv')
  show "map fst (players (kill rnd eaterId preyId eater prey g)) = map fst (players g)"
    using ke kp
    by (simp add: kill_def Let_def randomPosition_def randomInRange_def map_fst_update_present)
  show "pellets (kill rnd eaterId preyId eater prey g) = pellets g"
    by (simp add: kill_def Let_def randomPosition_def randomInRange_def)
  show "cursor (kill rnd eaterId preyId eater prey g) = cursor g + 2"
    by (simp add: kill_def Let_def randomPosition_def randomInRange_def)
qed

text \<open>
  Claim C4. When the pair evaluation kills: the eater's score grows by
  \<open>floor(prey.score * 0.5)\<close> (which is \<open>prey.score div 2\<close>) and its radius is
  recomputed from the new score; the prey's entry holds a new record with score 0,
  radius \<open>INITIAL_RADIUS\<close>, a position drawn by \<open>randomPosition\<close>, and the colour and
  name of the eliminated record; the keys keep their order and every other entry is
  untouched; exactly two messages are appended, \<open>youAtePlayer {gained, victimName}\<close>
  to the eater and \<open>youDied\<close> to the prey.
\<close>

theorem kill_effects:
  assumes "map_of (players g) eaterId = Some eater" and "map_of (players g) preyId = Some prey"
    and "score prey < score eater"
    and "\<not> radius eater \<le> radius prey * 1.05"
    and "js_le (js_add (distance (player_at eater) (player_at prey)) (Fin (radius prey)))
               (Fin (radius eater)) \<or>
         js_lt (distance (player_at eater) (player_at prey)) (Fin (radius prey * 0.9))"
    and "(idi = eaterId \<and> idj = preyId) \<or> (idi = preyId \<and> idj = eaterId)"
  shows "let g' = pair_step rnd idi idj g;
             gained = \<lfloor>real_of_int (score prey) * 0.5\<rfloor>
         in map_of (players g') eaterId =
              Some (eater\<lparr>score := score eater + gained,
                          radius := INITIAL_RADIUS + real_of_int (score eater + gained) * RADIUS_PER_POINT\<rparr>) \<and>
            map_of (players g') preyId =
              Some \<lparr>p_x = Fin (rnd (cursor g) * MAP_WIDTH),
                    p_y = Fin (rnd (Suc (cursor g)) * MAP_HEIGHT), score = 0,
                    radius = INITIAL_RADIUS, color = color prey, name = name prey\<rparr> \<and>
            map fst (players g') = map fst (players g) \<and>
            (\<forall>k. k \<noteq> eaterId \<and> k \<noteq> preyId \<longrightarrow> map_of (players g') k = map_of (players g) k) \<and>
            outbox g' = outbox g @ [(eaterId, YouAtePlayer gained (name prey)), (preyId, YouDied)] \<and>
            pellets g' = pellets g \<and> cursor g' = cursor g + 2 \<and>
            gained = score prey div 2"
proof -
  have ne: "eaterId \<noteq> preyId" using assms(1-3) by auto
  have ps: "pair_step rnd idi idj g = kill rnd eaterId preyId eater prey g"
    using pair_step_resolved [OF assms(1) assms(2) assms(3) assms(6), of rnd] assms(4,5) by simp
  show ?thesis
    using ne kill_result [OF assms(1) assms(2) ne, of rnd] kill_outbox [of rnd eaterId preyId eater prey g]
    by (simp add: ps Let_def floor_half_div)
qed


theorem kill_effects_witness:
  "map_of (players (pair_step (\<lambda>n. 1 / 2) ''B'' ''A''
     \<lparr>players = [(''B'', \<lparr>p_x = Fin 60, p_y = Fin 0, score = 10, radius = 31,
                            color = Some ''#ffb300'', name = ''Bob''\<rparr>),
                 (''A'', \<lparr>p_x = Fin 0, p_y = Fin 0, score = 125, radius = 100,
                            color = Some ''#00e5ff'', name = ''Ana''\<rparr>)],
      pellets = [], cursor = 0, outbox = []\<rparr>)) ''A'' =
     Some \<lparr>p_x = Fin 0, p_y = Fin 0, score = 130, radius = 103,
           color = Some ''#00e5ff'', name = ''Ana''\<rparr> \<and>
   map_of (players (pair_step (\<lambda>n. 1 / 2) ''B'' ''A''
     \<lparr>players = [(''B'', \<lparr>p_x = Fin 60, p_y = Fin 0, score = 10, radius = 31,
                            color = Some ''#ffb300'', name = ''Bob''\<rparr>),
                 (''A'', \<lparr>p_x = Fin 0, p_y = Fin 0, score = 125, radius = 100,
                            color = Some ''#00e5ff'', name = ''Ana''\<rparr>)],
      pellets = [], cursor = 0, outbox = []\<rparr>)) ''B'' =
     Some \<lparr>p_x = Fin 2000, p_y = Fin 2000, score = 0, radius = 25,
           color = Some ''#ffb300'', name = ''Bob''\<rparr> \<and>
   outbox (pair_step (\<lambda>n. 1 / 2) ''B'' ''A''
     \<lparr>players = [(''B'', \<lparr>p_x = Fin 60, p_y = Fin 0, score = 10, radius = 31,
                            color = Some ''#ffb300'', name = ''Bob''\<rparr>),
                 (''A'', \<lparr>p_x = Fin 0, p_y = Fin 0, score = 125, radius = 100,
                            color = Some ''#00e5ff'', name = ''Ana''\<rparr>)],
      pellets = [], cursor = 0, outbox = []\<rparr>) =
     [(''A'', YouAtePlayer 5 ''Bob''), (''B'', YouDied)]"
proof -
  have sq: "sqrt 3600 = 60" by (rule real_sqrt_unique) simp_all
  show ?thesis
    using kill_effects [where g =
        "\<lparr>players = [(''B'', \<lparr>p_x = Fin 60, p_y = Fin 0, score = 10, radius = 31,
                            color = Some ''#ffb300'', name = ''Bob''\<rparr>),
                 (''A'', \<lparr>p_x = Fin 0, p_y = Fin 0, score = 125, radius = 100,
                            color = Some ''#00e5ff'', name = ''Ana''\<rparr>)],
          pellets = [], cursor = 0, outbox = []\<rparr>"
        and eaterId = "''A''" and preyId = "''B''" and idi = "''B''" and idj = "''A''"
        and rnd = "\<lambda>n. 1 / 2"]
    by (simp add: Let_def distance_def player_at_def js_sub_def sq floor_half_div
          INITIAL_RADIUS_def RADIUS_PER_POINT_def MAP_WIDTH_def MAP_HEIGHT_def)
qed


section \<open>Players eat pellets\<close>

lemma consume_step_pair:
  "consume_step q (player, kept) =
     (if js_lt (distance (player_at player) (pellet_at q)) (Fin (radius player + 5))
      then (player\<lparr>score := score player + 1, radius := radius_of (score player + 1)\<rparr>, kept)
      else (player, q # kept))"
  by (simp add: consume_step_def)

lemma consume_step_acc:
  "foldr consume_step xs (player, acc) =
     (case foldr consume_step xs (player, []) of (player', kept) \<Rightarrow> (player', kept @ acc))"
proof (induction xs)
  case Nil
  then show ?case by simp
next
  case (Cons x xs)
  obtain player' kept where r: "foldr consume_step xs (player, []) = (player', kept)"
    by (cases "foldr consume_step xs (player, [])")
  with Cons show ?case by (simp add: consume_step_pair)
qed

lemma pellet_loop_take:
  "n \<le> length ps \<Longrightarrow>
   pellet_loop n player ps =
     (case foldr consume_step (take n ps) (player, []) of
        (player', kept) \<Rightarrow> (player', kept @ drop n ps))"
proof (induction n arbitrary: player ps)
  case 0
  then show ?case by simp
next
  case (Suc i)
  then have i: "i < length ps" by simp
  let ?q = "ps ! i"
  have tk: "take (Suc i) ps = take i ps @ [?q]"
    using i by (simp add: take_Suc_conv_app_nth)
  show ?case
  proof (cases "js_lt (distance (player_at player) (pellet_at ?q)) (Fin (radius player + 5))")
    case True
    let ?p1 = "player\<lparr>score := score player + 1, radius := radius_of (score player + 1)\<rparr>"
    let ?ps1 = "take i ps @ drop (Suc i) ps"
    have len: "i \<le> length ?ps1" using i by simp
    have t1: "take i ?ps1 = take i ps" using i by simp
    have d1: "drop i ?ps1 = drop (Suc i) ps" using i by simp
    have "pellet_loop (Suc i) player ps = pellet_loop i ?p1 ?ps1"
      using i True by (simp add: radius_of_def)
    also have "\<dots> = (case foldr consume_step (take i ps) (?p1, []) of
                        (player', kept) \<Rightarrow> (player', kept @ drop (Suc i) ps))"
      using Suc.IH [OF len, of ?p1] by (simp only: t1 d1)
    also have "\<dots> = (case foldr consume_step (take (Suc i) ps) (player, []) of
                        (player', kept) \<Rightarrow> (player', kept @ drop (Suc i) ps))"
      using True by (simp add: tk consume_step_pair)
    finally show ?thesis .
  next
    case False
    have le: "i \<le> length ps" using i by simp
    obtain player' kept where r: "foldr consume_step (take i ps) (player, []) = (player', kept)"
      by (cases "foldr consume_step (take i ps) (player, [])")
    have "pellet_loop (Suc i) player ps = pellet_loop i player ps"
      using i False by simp
    also have "\<dots> = (player', kept @ drop i ps)"
      using Suc.IH [OF le, of player] r by simp
    also have "\<dots> = (player', (kept @ [?q]) @ drop (Suc i) ps)"
      using i by (simp add: Cons_nth_drop_Suc)
    also have "\<dots> = (case foldr consume_step (take (Suc i) ps) (player, []) of
                        (player', kept) \<Rightarrow> (player', kept @ drop (Suc i) ps))"
      using False r consume_step_acc [of "take i ps" player "[?q]"]
      by (simp add: tk consume_step_pair)
    finally show ?thesis .
  qed
qed

lemma pellet_loop_foldr:
  "pellet_loop (length ps) player ps = foldr consume_step ps (player, [])"
  using pellet_loop_take [of "length ps" ps player] by (simp split: prod.splits)

lemma foldr_consume_facts:
  "foldr consume_step ps (player, []) = (player', kept) \<Longrightarrow>
   subseq kept ps \<and> score player' = score player + int (length ps) - int (length kept)"
proof (induction ps arbitrary: player' kept)
  case Nil
  then show ?case by simp
next
  case (Cons q ps)
  obtain p1 k1 where r: "foldr consume_step ps (player, []) = (p1, k1)"
    by (cases "foldr consume_step ps (player, [])")
  from Cons.IH [OF r] have ih: "subseq k1 ps" "score p1 = score player + int (length ps) - int (length k1)"
    by simp_all
  from Cons.prems r have "consume_step q (p1, k1) = (player', kept)" by simp
  then show ?case using ih
    by (auto simp: consume_step_pair split: if_splits)
qed

lemma eat_pellets_facts:
  "eat_pellets pls ps = (pls', ps') \<Longrightarrow>
   subseq ps' ps \<and> map fst pls' = map fst pls \<and>
   sum_list (map (\<lambda>kp. score (snd kp)) pls') =
     sum_list (map (\<lambda>kp. score (snd kp)) pls) + int (length ps) - int (length ps')"
proof (induction pls ps arbitrary: pls' ps' rule: eat_pellets.induct)
  case (1 ps)
  then show ?case by simp
next
  case (2 sid player rest ps)
  obtain p1 ps1 where l: "pellet_loop (length ps) player ps = (p1, ps1)"
    by (cases "pellet_loop (length ps) player ps")
  obtain rest' ps2 where r: "eat_pellets rest ps1 = (rest', ps2)"
    by (cases "eat_pellets rest ps1")
  have f: "subseq ps1 ps" "score p1 = score player + int (length ps) - int (length ps1)"
    using foldr_consume_facts [of ps player p1 ps1] l by (simp_all add: pellet_loop_foldr)
  have ih: "subseq ps2 ps1" "map fst rest' = map fst rest"
      "sum_list (map (\<lambda>kp. score (snd kp)) rest') =
       sum_list (map (\<lambda>kp. score (snd kp)) rest) + int (length ps1) - int (length ps2)"
    using "2.IH" [OF l [symmetric] r] by simp_all
  have res: "pls' = (sid, p1) # rest'" "ps' = ps2"
    using "2.prems" l r by simp_all
  show ?case
    using f ih subseq_order.order_trans [OF ih(1) f(1)] by (simp add: res)
qed


lemma two_pellets_eaten:
  "pellet_loop (length [\<lparr>pel_id = 0, pel_x = Fin 10, pel_y = Fin 10\<rparr>,
                        \<lparr>pel_id = 1, pel_x = Fin 12, pel_y = Fin 10\<rparr>])
     \<lparr>p_x = Fin 10, p_y = Fin 10, score = 0, radius = 25, color = None, name = ''Anonyme''\<rparr>
     [\<lparr>pel_id = 0, pel_x = Fin 10, pel_y = Fin 10\<rparr>,
      \<lparr>pel_id = 1, pel_x = Fin 12, pel_y = Fin 10\<rparr>] =
   (\<lparr>p_x = Fin 10, p_y = Fin 10, score = 2, radius = 26.2, color = None, name = ''Anonyme''\<rparr>, [])"
  by (simp add: distance_def player_at_def pellet_at_def js_sub_def
        INITIAL_RADIUS_def RADIUS_PER_POINT_def)

text \<open>
  Claim C5. The index loop with \<open>splice\<close> visits every pellet of the list once,
  from the last to the first, and applies \<open>consume_step\<close>: the pellet is consumed
  exactly when \<open>distance(player, pellet) < player.radius + 5\<close> for the radius the
  player has at that check; a consumption adds 1 to the score, recomputes the radius
  and removes the pellet. The next player's loop runs on the pellets the earlier
  players left, so a pellet has at most one consumer: the pellets after the pass are a
  subsequence of those before, and the scores grow in total by exactly the number of
  pellets removed. One player can consume two pellets in one pass.
\<close>

theorem pellet_pass:
  "pellet_loop (length ps) player ps = foldr consume_step ps (player, []) \<and>
   consume_step q (player, kept) =
     (if js_lt (distance (player_at player) (pellet_at q)) (Fin (radius player + 5))
      then (player\<lparr>score := score player + 1,
                   radius := INITIAL_RADIUS + real_of_int (score player + 1) * RADIUS_PER_POINT\<rparr>,
            kept)
      else (player, q # kept)) \<and>
   eat_pellets ((sid, player) # rest) ps =
     (case foldr consume_step ps (player, []) of (player', ps') \<Rightarrow>
      case eat_pellets rest ps' of (rest', ps'') \<Rightarrow> ((sid, player') # rest', ps'')) \<and>
   (\<forall>pls' ps'. eat_pellets pls ps = (pls', ps') \<longrightarrow>
      subseq ps' ps \<and> map fst pls' = map fst pls \<and>
      sum_list (map (\<lambda>kp. score (snd kp)) pls') =
        sum_list (map (\<lambda>kp. score (snd kp)) pls) + int (length ps) - int (length ps')) \<and>
   (\<exists>p qs. score (fst (pellet_loop (length qs) p qs)) = score p + 2)"
proof -
  have "\<exists>p qs. score (fst (pellet_loop (length qs) p qs)) = score p + 2"
    by (rule exI, rule exI, subst two_pellets_eaten) simp
  moreover have "eat_pellets ((sid, player) # rest) ps =
     (case foldr consume_step ps (player, []) of (player', ps') \<Rightarrow>
      case eat_pellets rest ps' of (rest', ps'') \<Rightarrow> ((sid, player') # rest', ps''))"
    by (simp add: pellet_loop_foldr)
  ultimately show ?thesis
    using pellet_loop_foldr [of ps player] consume_step_pair [of q player kept]
      eat_pellets_facts [of pls ps]
    by (simp add: radius_of_def)
qed

theorem pellet_pass_witness:
  "eat_pellets
     [(''A'', \<lparr>p_x = Fin 10, p_y = Fin 10, score = 0, radius = 25, color = None, name = ''Ana''\<rparr>),
      (''B'', \<lparr>p_x = Fin 3000, p_y = Fin 10, score = 0, radius = 25, color = None, name = ''Bob''\<rparr>)]
     [\<lparr>pel_id = 0, pel_x = Fin 10, pel_y = Fin 10\<rparr>,
      \<lparr>pel_id = 1, pel_x = Fin 12, pel_y = Fin 10\<rparr>,
      \<lparr>pel_id = 2, pel_x = Fin 3000, pel_y = Fin 10\<rparr>] =
   ([(''A'', \<lparr>p_x = Fin 10, p_y = Fin 10, score = 2, radius = 26.2, color = None, name = ''Ana''\<rparr>),
     (''B'', \<lparr>p_x = Fin 3000, p_y = Fin 10, score = 1, radius = 25.6, color = None, name = ''Bob''\<rparr>)],
    [])"
proof -
  have sq: "sqrt 8940100 = 2990" by (rule real_sqrt_unique) simp_all
  show ?thesis
    using pellet_pass [where sid = "''A''"
        and pls = "[(''A'', \<lparr>p_x = Fin 10, p_y = Fin 10, score = 0, radius = 25, color = None, name = ''Ana''\<rparr>),
      (''B'', \<lparr>p_x = Fin 3000, p_y = Fin 10, score = 0, radius = 25, color = None, name = ''Bob''\<rparr>)]"
        and player = "\<lparr>p_x = Fin 10, p_y = Fin 10, score = 0, radius = 25, color = None, name = ''Ana''\<rparr>"
        and rest = "[(''B'', \<lparr>p_x = Fin 3000, p_y = Fin 10, score = 0, radius = 25, color = None, name = ''Bob''\<rparr>)]"
        and ps = "[\<lparr>pel_id = 0, pel_x = Fin 10, pel_y = Fin 10\<rparr>,
      \<lparr>pel_id = 1, pel_x = Fin 12, pel_y = Fin 10\<rparr>,
      \<lparr>pel_id = 2, pel_x = Fin 3000, pel_y = Fin 10\<rparr>]"]
    by (simp add: consume_step_pair distance_def player_at_def pellet_at_def js_sub_def sq
          radius_of_def INITIAL_RADIUS_def RADIUS_PER_POINT_def)
qed


section \<open>Pellets grow back\<close>

lemma eat_pellets_length: "length (snd (eat_pellets pls ps)) \<le> length ps"
  using eat_pellets_facts [of pls ps "fst (eat_pellets pls ps)" "snd (eat_pellets pls ps)"]
  by (auto dest: list_emb_length)

lemma kill_pellets: "pellets (kill rnd eaterId preyId eater prey g) = pellets g"
  by (simp add: kill_def Let_def split: prod.splits)

lemma pair_step_pellets: "pellets (pair_step rnd idi idj g) = pellets g"
  unfolding pair_step_def Let_def
  by (auto split: option.splits simp: kill_pellets)

lemma fold_pair_step_pellets:
  "pellets (fold (\<lambda>j. pair_step rnd (f j) (h j)) js g) = pellets g"
  by (induction js arbitrary: g) (auto simp: pair_step_pellets)

lemma eat_players_pellets: "pellets (eat_players rnd g) = pellets g"
proof -
  have "pellets (fold (\<lambda>i. fold (\<lambda>j. pair_step rnd (ids ! i) (ids ! j)) (js i)) is g) = pellets g"
    for ids js "is"
    by (induction "is" arbitrary: g) (auto simp: fold_pair_step_pellets)
  then show ?thesis by (simp add: eat_players_def Let_def)
qed

lemma regrow_pellets:
  "pellets (regrow rnd now g) =
     (if length (pellets g) < MAX_PELLETS \<and> rnd (cursor g) < 0.2
      then pellets g @ [\<lparr>pel_id = now + rnd (cursor g + 3),
                         pel_x = Fin (rnd (cursor g + 1) * MAP_WIDTH),
                         pel_y = Fin (rnd (cursor g + 2) * MAP_HEIGHT)\<rparr>]
      else pellets g)"
  by (simp add: regrow_def randomPosition_def randomInRange_def numeral_3_eq_3)

lemma regrow_length:
  "length (pellets (regrow rnd now g)) \<le> length (pellets g) + 1"
  "length (pellets g) \<le> MAX_PELLETS \<Longrightarrow> length (pellets (regrow rnd now g)) \<le> MAX_PELLETS"
  by (simp_all add: regrow_pellets)

lemma gameLoop_pellets:
  "pellets (fst (gameLoop rnd now g)) =
     pellets (regrow rnd now
       (eat_players rnd (g\<lparr>players := fst (eat_pellets (players g) (pellets g)),
                            pellets := snd (eat_pellets (players g) (pellets g))\<rparr>)))"
  by (simp add: gameLoop_def Let_def split: prod.splits)

lemma gameLoop_length:
  "length (pellets (fst (gameLoop rnd now g))) \<le> length (pellets g) + 1"
  "length (pellets g) \<le> MAX_PELLETS \<Longrightarrow> length (pellets (fst (gameLoop rnd now g))) \<le> MAX_PELLETS"
proof -
  let ?g1 = "g\<lparr>players := fst (eat_pellets (players g) (pellets g)),
                pellets := snd (eat_pellets (players g) (pellets g))\<rparr>"
  have l: "length (pellets (eat_players rnd ?g1)) \<le> length (pellets g)"
    using eat_pellets_length [of "players g" "pellets g"] by (simp add: eat_players_pellets)
  show "length (pellets (fst (gameLoop rnd now g))) \<le> length (pellets g) + 1"
    using l regrow_length(1) [of rnd now "eat_players rnd ?g1"] by (simp add: gameLoop_pellets)
  show "length (pellets (fst (gameLoop rnd now g))) \<le> MAX_PELLETS" if "length (pellets g) \<le> MAX_PELLETS"
    using l that regrow_length(2) [of "eat_players rnd ?g1" rnd now] by (simp add: gameLoop_pellets)
qed

lemma regrow_fresh_id:
  assumes "distinct (map pel_id (pellets g))" and "\<forall>q \<in> set (pellets g). pel_id q < now"
    and "0 \<le> rnd (cursor g + 3)"
  shows "distinct (map pel_id (pellets (regrow rnd now g)))"
  using assms by (fastforce simp: regrow_pellets)

lemma generateInitialPellets_ids:
  "map pel_id (fst (generateInitialPellets rnd k count)) = map real [0..<count]"
proof -
  have "map pel_id (fst (fold (\<lambda>i (ps, k).
             case randomPosition rnd k of (pos, k') \<Rightarrow>
               (ps @ [\<lparr>pel_id = real i, pel_x = Fin (fst pos), pel_y = Fin (snd pos)\<rparr>], k'))
          is st)) = map pel_id (fst st) @ map real is" for "is" st
    by (induction "is" arbitrary: st) (auto split: prod.splits)
  then show ?thesis by (simp add: generateInitialPellets_def)
qed

lemma generateInitialPellets_length:
  "length (fst (generateInitialPellets rnd k count)) = count"
  using arg_cong [OF generateInitialPellets_ids [of rnd k count], of length] by simp


text \<open>
  Claim C6, as amended. \<open>MAX_PELLETS\<close> is 1200. The regrowth step appends exactly
  one pellet, at a drawn position and with the id \<open>Date.now() + Math.random()\<close>, when
  the count is below \<open>MAX_PELLETS\<close> and the draw is below 0.2, and leaves the list as
  it is otherwise. A tick ends with the list that the regrowth step returns; it adds
  at most one pellet, and a list of at most \<open>MAX_PELLETS\<close> pellets stays so. The new id
  differs from every id of the list when the clock value exceeds all of them. The
  initial field has \<open>MAX_PELLETS\<close> pellets with the ids \<open>0, 1, ...\<close>.
\<close>

theorem pellet_regrowth:
  "MAX_PELLETS = 1200 \<and>
   pellets (regrow rnd now g) =
     (if length (pellets g) < MAX_PELLETS \<and> rnd (cursor g) < 0.2
      then pellets g @ [\<lparr>pel_id = now + rnd (cursor g + 3),
                         pel_x = Fin (rnd (cursor g + 1) * MAP_WIDTH),
                         pel_y = Fin (rnd (cursor g + 2) * MAP_HEIGHT)\<rparr>]
      else pellets g) \<and>
   pellets (regrow rnd now
       (eat_players rnd (g\<lparr>players := fst (eat_pellets (players g) (pellets g)),
                            pellets := snd (eat_pellets (players g) (pellets g))\<rparr>))) =
     pellets (fst (gameLoop rnd now g)) \<and>
   length (pellets (fst (gameLoop rnd now g))) \<le> length (pellets g) + 1 \<and>
   (length (pellets g) \<le> MAX_PELLETS \<longrightarrow>
      length (pellets (fst (gameLoop rnd now g))) \<le> MAX_PELLETS) \<and>
   (distinct (map pel_id (pellets g)) \<and> (\<forall>q \<in> set (pellets g). pel_id q < now) \<and>
    0 \<le> rnd (cursor g + 3) \<longrightarrow>
      distinct (map pel_id (pellets (regrow rnd now g)))) \<and>
   length (fst (generateInitialPellets rnd k MAX_PELLETS)) = MAX_PELLETS \<and>
   map pel_id (fst (generateInitialPellets rnd k count)) = map real [0..<count]"
  using regrow_pellets [of rnd now g] gameLoop_pellets [of rnd now g] gameLoop_length [where rnd = rnd and now = now and g = g]
    regrow_fresh_id [of g now rnd] generateInitialPellets_length [of rnd k MAX_PELLETS]
    generateInitialPellets_ids [of rnd k count]
  by (simp add: MAX_PELLETS_def)

theorem pellet_regrowth_witness:
  "pellets (regrow (\<lambda>n. 1 / 10) 1000
     \<lparr>players = [], pellets = [\<lparr>pel_id = 7, pel_x = Fin 1, pel_y = Fin 2\<rparr>],
      cursor = 0, outbox = []\<rparr>) =
     [\<lparr>pel_id = 7, pel_x = Fin 1, pel_y = Fin 2\<rparr>,
      \<lparr>pel_id = 1000.1, pel_x = Fin 400, pel_y = Fin 400\<rparr>] \<and>
   distinct (map pel_id (pellets (regrow (\<lambda>n. 1 / 10) 1000
     \<lparr>players = [], pellets = [\<lparr>pel_id = 7, pel_x = Fin 1, pel_y = Fin 2\<rparr>],
      cursor = 0, outbox = []\<rparr>))) \<and>
   length (pellets (fst (gameLoop (\<lambda>n. 1 / 10) 1000
     \<lparr>players = [], pellets = [\<lparr>pel_id = 7, pel_x = Fin 1, pel_y = Fin 2\<rparr>],
      cursor = 0, outbox = []\<rparr>))) \<le> 1200"
  using pellet_regrowth [where g =
      "\<lparr>players = [], pellets = [\<lparr>pel_id = 7, pel_x = Fin 1, pel_y = Fin 2\<rparr>],
        cursor = 0, outbox = []\<rparr>" and rnd = "\<lambda>n. 1 / 10" and now = 1000 and k = 0 and count = 0]
  by (simp add: MAX_PELLETS_def MAP_WIDTH_def MAP_HEIGHT_def)

text \<open>
  Claim C6 as stated promises a unique id. A pellet made at clock value
  \<open>1700000000000\<close> with the draw \<open>0.5\<close> has the id \<open>1700000000000.5\<close>; a later
  regrowth that reads the same clock value and draws \<open>0.5\<close> for the id appends a
  second pellet with that id.
\<close>

theorem regrow_id_collision:
  "distinct (map pel_id [\<lparr>pel_id = 1700000000000.5, pel_x = Fin 100, pel_y = Fin 200\<rparr>]) \<and>
   pellets (regrow (\<lambda>n. if n = 0 then 0.1 else 0.5) 1700000000000
     \<lparr>players = [], pellets = [\<lparr>pel_id = 1700000000000.5, pel_x = Fin 100, pel_y = Fin 200\<rparr>],
      cursor = 0, outbox = []\<rparr>) =
     [\<lparr>pel_id = 1700000000000.5, pel_x = Fin 100, pel_y = Fin 200\<rparr>,
      \<lparr>pel_id = 1700000000000.5, pel_x = Fin 2000, pel_y = Fin 2000\<rparr>] \<and>
   \<not> distinct (map pel_id (pellets (regrow (\<lambda>n. if n = 0 then 0.1 else 0.5) 1700000000000
     \<lparr>players = [], pellets = [\<lparr>pel_id = 1700000000000.5, pel_x = Fin 100, pel_y = Fin 200\<rparr>],
      cursor = 0, outbox = []\<rparr>)))"
  by (simp add: regrow_def randomPosition_def randomInRange_def MAX_PELLETS_def
        MAP_WIDTH_def MAP_HEIGHT_def)


section \<open>Joining and respawning\<close>

lemma randomColor_palette:
  assumes "0 \<le> rnd k" and "rnd k < 1"
  shows "fst (randomColor rnd k) \<in> Some ` set colors"
proof -
  have "rnd k * 5 < 5" using assms by simp
  then have up: "\<lfloor>rnd k * 5\<rfloor> < 5" by (simp add: floor_less_iff)
  have lo: "0 \<le> \<lfloor>rnd k * 5\<rfloor>" using assms by simp
  have len: "length colors = 5" by (simp add: colors_def)
  have "nat \<lfloor>rnd k * 5\<rfloor> < 5" using up lo by linarith
  then show ?thesis
    using lo len by (simp add: randomColor_def Let_def)
qed

lemma connection_player:
  "map_of (players (connection rnd sid g)) sid =
     Some \<lparr>p_x = Fin (rnd (cursor g) * MAP_WIDTH), p_y = Fin (rnd (Suc (cursor g)) * MAP_HEIGHT),
           score = 0, radius = INITIAL_RADIUS, color = fst (randomColor rnd (cursor g + 2)),
           name = ''Anonyme''\<rparr>"
  by (simp add: connection_def randomPosition_def randomInRange_def update_conv' split: prod.splits)

lemma kill_prey_player:
  "map_of (players (kill rnd eaterId preyId eater prey g)) preyId =
     Some \<lparr>p_x = Fin (rnd (cursor g) * MAP_WIDTH), p_y = Fin (rnd (Suc (cursor g)) * MAP_HEIGHT),
           score = 0, radius = INITIAL_RADIUS, color = color prey, name = name prey\<rparr>"
  by (simp add: kill_def Let_def randomPosition_def randomInRange_def update_conv')

lemma draw_in_map:
  assumes "0 \<le> r" and "r < 1"
  shows "0 \<le> r * MAP_WIDTH \<and> r * MAP_WIDTH < MAP_WIDTH \<and> 0 \<le> r * MAP_HEIGHT \<and> r * MAP_HEIGHT < MAP_HEIGHT"
  using assms by (simp add: MAP_WIDTH_def MAP_HEIGHT_def)

lemma in_bounds_initial:
  "in_bounds \<lparr>p_x = Fin vx, p_y = Fin vy, score = s, radius = INITIAL_RADIUS, color = c, name = nm\<rparr> =
     (25 \<le> vx \<and> vx \<le> 3975 \<and> 25 \<le> vy \<and> vy \<le> 3975)"
  by (simp add: in_bounds_def INITIAL_RADIUS_def MAP_WIDTH_def MAP_HEIGHT_def)

text \<open>
  Claim C9. With every draw of \<open>Math.random()\<close> in \<open>[0, 1)\<close>, a join stores a player
  with score 0, radius \<open>INITIAL_RADIUS\<close>, the name \<open>Anonyme\<close>, a colour of the palette
  and a position in \<open>[0, mapWidth) \<times> [0, mapHeight)\<close>, and a kill stores such a position
  for the prey. A record of radius 25 is within
  \<open>[radius, mapWidth - radius] \<times> [radius, mapHeight - radius]\<close> exactly when both
  coordinates are in \<open>[25, 3975]\<close>, so some draws (for example 0) place the new player
  and the respawned prey outside it. A move of the new player to a real-number target
  brings it within.
\<close>

theorem spawn_not_inset:
  assumes "\<forall>n. 0 \<le> rnd n \<and> rnd n < 1"
  shows "(\<exists>vx vy c. map_of (players (connection rnd sid g)) sid =
            Some \<lparr>p_x = Fin vx, p_y = Fin vy, score = 0, radius = INITIAL_RADIUS,
                  color = c, name = ''Anonyme''\<rparr> \<and>
            c \<in> Some ` set colors \<and>
            0 \<le> vx \<and> vx < MAP_WIDTH \<and> 0 \<le> vy \<and> vy < MAP_HEIGHT) \<and>
         (\<exists>vx vy. map_of (players (kill rnd eaterId preyId eater prey g)) preyId =
            Some \<lparr>p_x = Fin vx, p_y = Fin vy, score = 0, radius = INITIAL_RADIUS,
                  color = color prey, name = name prey\<rparr> \<and>
            0 \<le> vx \<and> vx < MAP_WIDTH \<and> 0 \<le> vy \<and> vy < MAP_HEIGHT) \<and>
         in_bounds \<lparr>p_x = Fin vx, p_y = Fin vy, score = 0, radius = INITIAL_RADIUS,
                    color = c, name = nm\<rparr> =
           (25 \<le> vx \<and> vx \<le> 3975 \<and> 25 \<le> vy \<and> vy \<le> 3975) \<and>
         (\<exists>rnd'. (\<forall>n. 0 \<le> rnd' n \<and> rnd' n < 1) \<and>
            (\<exists>q. map_of (players (connection rnd' sid g)) sid = Some q \<and> \<not> in_bounds q) \<and>
            (\<exists>q. map_of (players (kill rnd' eaterId preyId eater prey g)) preyId = Some q \<and>
                 \<not> in_bounds q)) \<and>
         (\<exists>g' q'. move sid (Some (JNumber (Fin tx), JNumber (Fin ty))) (connection rnd sid g) = Inr g' \<and>
            map_of (players g') sid = Some q' \<and> in_bounds q')"
proof -
  have d0: "0 \<le> rnd (cursor g) * MAP_WIDTH \<and> rnd (cursor g) * MAP_WIDTH < MAP_WIDTH"
    using assms draw_in_map [of "rnd (cursor g)"] by simp
  have d1: "0 \<le> rnd (Suc (cursor g)) * MAP_HEIGHT \<and> rnd (Suc (cursor g)) * MAP_HEIGHT < MAP_HEIGHT"
    using assms draw_in_map [of "rnd (Suc (cursor g))"] by simp
  have c: "fst (randomColor rnd (cursor g + 2)) \<in> Some ` set colors"
    using assms randomColor_palette by simp
  have join: "\<exists>vx vy c. map_of (players (connection rnd sid g)) sid =
            Some \<lparr>p_x = Fin vx, p_y = Fin vy, score = 0, radius = INITIAL_RADIUS,
                  color = c, name = ''Anonyme''\<rparr> \<and>
            c \<in> Some ` set colors \<and>
            0 \<le> vx \<and> vx < MAP_WIDTH \<and> 0 \<le> vy \<and> vy < MAP_HEIGHT"
    using connection_player [of rnd sid g] d0 d1 c by blast
  have respawn: "\<exists>vx vy. map_of (players (kill rnd eaterId preyId eater prey g)) preyId =
            Some \<lparr>p_x = Fin vx, p_y = Fin vy, score = 0, radius = INITIAL_RADIUS,
                  color = color prey, name = name prey\<rparr> \<and>
            0 \<le> vx \<and> vx < MAP_WIDTH \<and> 0 \<le> vy \<and> vy < MAP_HEIGHT"
    using kill_prey_player [of rnd eaterId preyId eater prey g] d0 d1 by blast
  have bad: "\<exists>rnd'. (\<forall>n. 0 \<le> rnd' n \<and> rnd' n < 1) \<and>
            (\<exists>q. map_of (players (connection rnd' sid g)) sid = Some q \<and> \<not> in_bounds q) \<and>
            (\<exists>q. map_of (players (kill rnd' eaterId preyId eater prey g)) preyId = Some q \<and>
                 \<not> in_bounds q)"
    by (rule exI [of _ "\<lambda>n. 0"])
       (simp add: connection_player kill_prey_player in_bounds_initial)
  have r: "INITIAL_RADIUS \<le> MAP_WIDTH - INITIAL_RADIUS" "INITIAL_RADIUS \<le> MAP_HEIGHT - INITIAL_RADIUS"
    by (simp_all add: INITIAL_RADIUS_def MAP_WIDTH_def MAP_HEIGHT_def)
  have mv: "\<exists>g' q'. move sid (Some (JNumber (Fin tx), JNumber (Fin ty))) (connection rnd sid g) = Inr g' \<and>
            map_of (players g') sid = Some q' \<and> in_bounds q'"
    using move_in_bounds [OF connection_player [of rnd sid g], of "JNumber (Fin tx)" "JNumber (Fin ty)"] r
    by auto
  show ?thesis
    using join respawn bad mv in_bounds_initial [of vx vy 0 c nm] by blast
qed

theorem spawn_not_inset_witness:
  "(\<forall>n. (0::real) \<le> 0 \<and> (0::real) < 1) \<and>
   (\<exists>q. map_of (players (connection (\<lambda>n. 0) ''s''
            \<lparr>players = [], pellets = [], cursor = 0, outbox = []\<rparr>)) ''s'' = Some q \<and>
        p_x q = Fin 0 \<and> p_y q = Fin 0 \<and> radius q = 25 \<and> \<not> in_bounds q)"
  using spawn_not_inset [where rnd = "\<lambda>n. 0" and sid = "''s''"
      and g = "\<lparr>players = [], pellets = [], cursor = 0, outbox = []\<rparr>"]
  by (simp add: connection_player in_bounds_def INITIAL_RADIUS_def MAP_WIDTH_def MAP_HEIGHT_def)


section \<open>The two game loops and the broadcast\<close>

lemma pellet_loop2_eq: "pellet_loop2 n player ps = pellet_loop n player ps"
  by (induction n arbitrary: player ps) simp_all

lemma eat_pellets2_eq: "eat_pellets2 pls ps = eat_pellets pls ps"
  by (induction pls arbitrary: ps) (auto simp: pellet_loop2_eq split: prod.splits)

lemma forget_tick_simps:
  "players (forget_tick g) = players g" "pellets (forget_tick g) = pellets g"
  "cursor (forget_tick g) = cursor g" "outbox (forget_tick g) = outbox g"
  by (simp_all add: forget_tick_def)

lemma forget_tick_update:
  "forget_tick (g\<lparr>players := a, cursor := b, outbox := c\<rparr>) =
     (forget_tick g)\<lparr>players := a, cursor := b, outbox := c\<rparr>"
  "forget_tick (g\<lparr>players := a, pellets := d\<rparr>) = (forget_tick g)\<lparr>players := a, pellets := d\<rparr>"
  "forget_tick (g\<lparr>pellets := d, cursor := b\<rparr>) = (forget_tick g)\<lparr>pellets := d, cursor := b\<rparr>"
  "forget_tick (g\<lparr>cursor := b\<rparr>) = (forget_tick g)\<lparr>cursor := b\<rparr>"
  "forget_tick (g\<lparr>tick := t\<rparr>) = forget_tick g"
  by (simp_all add: forget_tick_def)

lemma kill2_sim:
  "forget_tick (kill2 rnd eaterId preyId eater prey g) =
     kill rnd eaterId preyId eater prey (forget_tick g)"
  "tick (kill2 rnd eaterId preyId eater prey g) = tick g"
  by (simp_all add: kill2_def kill_def Let_def forget_tick_update forget_tick_simps split: prod.splits)

lemma pair_step2_sim:
  "forget_tick (pair_step2 rnd idi idj g) = pair_step rnd idi idj (forget_tick g)"
  "tick (pair_step2 rnd idi idj g) = tick g"
  unfolding pair_step2_def pair_step_def Let_def
  by (auto simp: forget_tick_simps kill2_sim split: option.splits)

lemma fold_pair_step2_sim:
  "forget_tick (fold (\<lambda>j. pair_step2 rnd (f j) (h j)) js g) =
     fold (\<lambda>j. pair_step rnd (f j) (h j)) js (forget_tick g) \<and>
   tick (fold (\<lambda>j. pair_step2 rnd (f j) (h j)) js g) = tick g"
  by (induction js arbitrary: g) (simp_all add: pair_step2_sim)

lemma eat_players2_sim:
  "forget_tick (eat_players2 rnd g) = eat_players rnd (forget_tick g)"
  "tick (eat_players2 rnd g) = tick g"
proof -
  have "forget_tick (fold (\<lambda>i. fold (\<lambda>j. pair_step2 rnd (ids ! i) (ids ! j)) (js i)) is g) =
          fold (\<lambda>i. fold (\<lambda>j. pair_step rnd (ids ! i) (ids ! j)) (js i)) is (forget_tick g) \<and>
        tick (fold (\<lambda>i. fold (\<lambda>j. pair_step2 rnd (ids ! i) (ids ! j)) (js i)) is g) = tick g"
    for ids js "is"
    by (induction "is" arbitrary: g) (simp_all add: fold_pair_step2_sim)
  then show "forget_tick (eat_players2 rnd g) = eat_players rnd (forget_tick g)"
    and "tick (eat_players2 rnd g) = tick g"
    by (simp_all add: eat_players2_def eat_players_def Let_def forget_tick_simps)
qed

lemma regrow2_sim:
  "forget_tick (regrow2 rnd now g) = regrow rnd now (forget_tick g)"
  "tick (regrow2 rnd now g) = tick g"
  by (simp_all add: regrow2_def regrow_def forget_tick_update forget_tick_simps split: prod.splits)

lemma gameLoop2_state:
  "fst (gameLoop2 rnd now g) =
     regrow2 rnd now (eat_players2 rnd
       (g\<lparr>tick := tick g + 1,
          players := fst (eat_pellets2 (players g) (pellets g)),
          pellets := snd (eat_pellets2 (players g) (pellets g))\<rparr>))"
  by (simp add: gameLoop2_def Let_def split: prod.splits)

lemma gameLoop_state:
  "fst (gameLoop rnd now g) =
     regrow rnd now (eat_players rnd
       (g\<lparr>players := fst (eat_pellets (players g) (pellets g)),
          pellets := snd (eat_pellets (players g) (pellets g))\<rparr>))"
  by (simp add: gameLoop_def Let_def split: prod.splits)

lemma gameLoop_msg:
  "snd (gameLoop rnd now g) =
     \<lparr>msg_players = players (fst (gameLoop rnd now g)),
      msg_pellets = Some (pellets (fst (gameLoop rnd now g)))\<rparr>"
  by (simp add: gameLoop_def Let_def split: prod.splits)

lemma gameLoop2_msg:
  "snd (gameLoop2 rnd now g) =
     \<lparr>msg_players = players (fst (gameLoop2 rnd now g)),
      msg_pellets = (if tick (fst (gameLoop2 rnd now g)) mod 4 = 0
                     then Some (pellets (fst (gameLoop2 rnd now g))) else None)\<rparr>"
  by (simp add: gameLoop2_def Let_def split: prod.splits)

lemma gameLoop2_tick: "tick (fst (gameLoop2 rnd now g)) = tick g + 1"
  by (simp add: gameLoop2_state regrow2_sim eat_players2_sim)

lemma gameLoop2_sim:
  "forget_tick (fst (gameLoop2 rnd now g)) = fst (gameLoop rnd now (forget_tick g))"
  by (simp add: gameLoop2_state gameLoop_state regrow2_sim eat_players2_sim eat_pellets2_eq
        forget_tick_update forget_tick_simps)


text \<open>
  Claim C10. From the same players, pellets, outbox and random draws, one tick of
  src/unnamed/part_000 and one tick of src/server.js end with the same players,
  pellets, outbox (the kill notifications) and number of draws used, and send the
  same \<open>players\<close> member. The payload of src/server.js always has the member
  \<open>pellets\<close>, holding the pellets after the tick; that of part_000 has the same
  member when its counter, after the increment, is a multiple of 4, and none
  otherwise.
\<close>

theorem gameLoop_variants_agree:
  "forget_tick (fst (gameLoop2 rnd now g)) = fst (gameLoop rnd now (forget_tick g)) \<and>
   msg_players (snd (gameLoop2 rnd now g)) = msg_players (snd (gameLoop rnd now (forget_tick g))) \<and>
   msg_pellets (snd (gameLoop rnd now (forget_tick g))) =
     Some (pellets (fst (gameLoop2 rnd now g))) \<and>
   msg_pellets (snd (gameLoop2 rnd now g)) =
     (if (tick g + 1) mod 4 = 0 then msg_pellets (snd (gameLoop rnd now (forget_tick g))) else None)"
proof -
  have s: "forget_tick (fst (gameLoop2 rnd now g)) = fst (gameLoop rnd now (forget_tick g))"
    by (rule gameLoop2_sim)
  have p: "players (fst (gameLoop2 rnd now g)) = players (fst (gameLoop rnd now (forget_tick g)))"
    using arg_cong [OF s, of players] by (simp add: forget_tick_simps)
  have q: "pellets (fst (gameLoop2 rnd now g)) = pellets (fst (gameLoop rnd now (forget_tick g)))"
    using arg_cong [OF s, of pellets] by (simp add: forget_tick_simps)
  show ?thesis
    using s p q by (simp add: gameLoop_msg gameLoop2_msg gameLoop2_tick)
qed

theorem gameLoop_variants_agree_witness:
  "forget_tick (fst (gameLoop2 (\<lambda>n. 1 / 2) 0
     \<lparr>players = [(''A'', \<lparr>p_x = Fin 0, p_y = Fin 0, score = 125, radius = 100,
                            color = Some ''#00e5ff'', name = ''Ana''\<rparr>)],
      pellets = [\<lparr>pel_id = 0, pel_x = Fin 10, pel_y = Fin 0\<rparr>],
      cursor = 0, outbox = [], tick = 0\<rparr>)) =
   fst (gameLoop (\<lambda>n. 1 / 2) 0
     \<lparr>players = [(''A'', \<lparr>p_x = Fin 0, p_y = Fin 0, score = 125, radius = 100,
                            color = Some ''#00e5ff'', name = ''Ana''\<rparr>)],
      pellets = [\<lparr>pel_id = 0, pel_x = Fin 10, pel_y = Fin 0\<rparr>],
      cursor = 0, outbox = []\<rparr>) \<and>
   msg_pellets (snd (gameLoop2 (\<lambda>n. 1 / 2) 0
     \<lparr>players = [(''A'', \<lparr>p_x = Fin 0, p_y = Fin 0, score = 125, radius = 100,
                            color = Some ''#00e5ff'', name = ''Ana''\<rparr>)],
      pellets = [\<lparr>pel_id = 0, pel_x = Fin 10, pel_y = Fin 0\<rparr>],
      cursor = 0, outbox = [], tick = 0\<rparr>)) = None"
  using gameLoop_variants_agree [where rnd = "\<lambda>n. 1 / 2" and now = 0 and g =
     "\<lparr>players = [(''A'', \<lparr>p_x = Fin 0, p_y = Fin 0, score = 125, radius = 100,
                            color = Some ''#00e5ff'', name = ''Ana''\<rparr>)],
      pellets = [\<lparr>pel_id = 0, pel_x = Fin 10, pel_y = Fin 0\<rparr>],
      cursor = 0, outbox = [], tick = 0\<rparr>"]
  by (simp add: forget_tick_def)

text \<open>
  Claim C1, as amended. In src/unnamed/part_000 every tick increments the counter
  and sends a \<open>state\<close> message whose \<open>players\<close> member is the player mapping after
  the tick and whose \<open>pellets\<close> member is present, holding the pellets after the
  tick, exactly when the counter is a multiple of 4. In src/server.js every tick
  sends both members.
\<close>

theorem state_broadcast:
  "snd (gameLoop2 rnd now g) =
     \<lparr>msg_players = players (fst (gameLoop2 rnd now g)),
      msg_pellets = (if tick (fst (gameLoop2 rnd now g)) mod 4 = 0
                     then Some (pellets (fst (gameLoop2 rnd now g))) else None)\<rparr> \<and>
   tick (fst (gameLoop2 rnd now g)) = tick g + 1 \<and>
   snd (gameLoop rnd now h) =
     \<lparr>msg_players = players (fst (gameLoop rnd now h)),
      msg_pellets = Some (pellets (fst (gameLoop rnd now h)))\<rparr>"
  using gameLoop2_msg [of rnd now g] gameLoop2_tick [of rnd now g] gameLoop_msg [of rnd now h]
  by simp

theorem state_broadcast_witness:
  "msg_pellets (snd (gameLoop2 (\<lambda>n. 1 / 2) 0
     \<lparr>players = [], pellets = [\<lparr>pel_id = 0, pel_x = Fin 10, pel_y = Fin 0\<rparr>],
      cursor = 0, outbox = [], tick = 3\<rparr>)) =
   Some (pellets (fst (gameLoop2 (\<lambda>n. 1 / 2) 0
     \<lparr>players = [], pellets = [\<lparr>pel_id = 0, pel_x = Fin 10, pel_y = Fin 0\<rparr>],
      cursor = 0, outbox = [], tick = 3\<rparr>))) \<and>
   msg_pellets (snd (gameLoop2 (\<lambda>n. 1 / 2) 0
     \<lparr>players = [], pellets = [\<lparr>pel_id = 0, pel_x = Fin 10, pel_y = Fin 0\<rparr>],
      cursor = 0, outbox = [], tick = 4\<rparr>)) = None"
  using state_broadcast [where rnd = "\<lambda>n. 1 / 2" and now = 0 and g =
     "\<lparr>players = [], pellets = [\<lparr>pel_id = 0, pel_x = Fin 10, pel_y = Fin 0\<rparr>],
      cursor = 0, outbox = [], tick = 3\<rparr>"]
    state_broadcast [where rnd = "\<lambda>n. 1 / 2" and now = 0 and g =
     "\<lparr>players = [], pellets = [\<lparr>pel_id = 0, pel_x = Fin 10, pel_y = Fin 0\<rparr>],
      cursor = 0, outbox = [], tick = 4\<rparr>"]
  by simp

text \<open>
  Claim C1 as stated fails on src/server.js, which has no tick counter: two ticks in
  a row, from a world with one pellet and no player, both send the member
  \<open>pellets\<close>, and at most one of two consecutive ticks is a 4th tick.
\<close>

theorem server_js_sends_pellets_on_consecutive_ticks:
  "fst (gameLoop (\<lambda>n. 1 / 2) 0
     \<lparr>players = [], pellets = [\<lparr>pel_id = 0, pel_x = Fin 10, pel_y = Fin 0\<rparr>],
      cursor = 0, outbox = []\<rparr>) =
     \<lparr>players = [], pellets = [\<lparr>pel_id = 0, pel_x = Fin 10, pel_y = Fin 0\<rparr>],
      cursor = 1, outbox = []\<rparr> \<and>
   msg_pellets (snd (gameLoop (\<lambda>n. 1 / 2) 0
     \<lparr>players = [], pellets = [\<lparr>pel_id = 0, pel_x = Fin 10, pel_y = Fin 0\<rparr>],
      cursor = 0, outbox = []\<rparr>)) = Some [\<lparr>pel_id = 0, pel_x = Fin 10, pel_y = Fin 0\<rparr>] \<and>
   msg_pellets (snd (gameLoop (\<lambda>n. 1 / 2) 0
     \<lparr>players = [], pellets = [\<lparr>pel_id = 0, pel_x = Fin 10, pel_y = Fin 0\<rparr>],
      cursor = 1, outbox = []\<rparr>)) = Some [\<lparr>pel_id = 0, pel_x = Fin 10, pel_y = Fin 0\<rparr>]"
  by (simp add: gameLoop_def eat_players_def regrow_def MAX_PELLETS_def Let_def)


end
